theory Spec2Isabelle
  imports Complex_Main "HOL-Library.Multiset"
begin

section \<open>JavaScript strings\<close>

text \<open>
  A JavaScript string is a sequence of UTF-16 code units and \<open>length\<close> counts code units.
  The embedding takes the code units \<open>U+0000\<close> to \<open>U+00FF\<close> (Latin-1), one \<^typ>\<open>char\<close>
  each, so that \<^const>\<open>length\<close> is the source's \<open>.length\<close>. All keyword tables, patterns
  and templates of \<open>analysis-engine.ts\<close> are ASCII.
\<close>

definition code :: "char \<Rightarrow> nat" where
  "code c = of_char c"

text \<open>\<open>WhiteSpace\<close> and \<open>LineTerminator\<close> of ECMAScript in this range: what \<open>trim()\<close> strips
  and what \<open>\s\<close> matches (TAB, LF, VT, FF, CR, SP, NBSP).\<close>

definition isWhiteSpace :: "char \<Rightarrow> bool" where
  "isWhiteSpace c = (code c = 9 \<or> code c = 10 \<or> code c = 11 \<or> code c = 12 \<or> code c = 13
     \<or> code c = 32 \<or> code c = 160)"

text \<open>\<open>String.prototype.toLowerCase\<close>: \<open>A-Z\<close> and the Latin-1 capitals \<open>U+00C0..U+00DE\<close>
  (but the multiplication sign \<open>U+00D7\<close>) move up by 32.\<close>

definition toLowerChar :: "char \<Rightarrow> char" where
  "toLowerChar c =
     (if (65 \<le> code c \<and> code c \<le> 90) \<or> (192 \<le> code c \<and> code c \<le> 222 \<and> code c \<noteq> 215)
      then char_of (code c + 32) else c)"

definition toLowerCase :: "string \<Rightarrow> string" where
  "toLowerCase s = map toLowerChar s"

text \<open>\<open>s.startsWith(k)\<close> and \<open>s.includes(k)\<close> (\<open>includes\<close> is a keyword of Isabelle).\<close>

fun startsWith :: "string \<Rightarrow> string \<Rightarrow> bool" where
  "startsWith s [] = True"
| "startsWith [] (k # ks) = False"
| "startsWith (c # cs) (k # ks) = (if c = k then startsWith cs ks else False)"

fun includesStr :: "string \<Rightarrow> string \<Rightarrow> bool" where
  "includesStr [] k = (k = [])"
| "includesStr (c # cs) k = (startsWith (c # cs) k \<or> includesStr cs k)"

definition endsWith :: "string \<Rightarrow> string \<Rightarrow> bool" where
  "endsWith s k = (length k \<le> length s \<and> drop (length s - length k) s = k)"

definition trim :: "string \<Rightarrow> string" where
  "trim s = rev (dropWhile isWhiteSpace (rev (dropWhile isWhiteSpace s)))"

text \<open>\<open>s.split(/[...]+/)\<close> for a character class \<open>sep\<close>: the text before the leftmost
  separator, then the split of what follows the whole run of separators. A string without
  separator is its own single piece, the empty string too: \<open>"".split(/x+/)\<close> is \<open>[""]\<close>.\<close>

function split :: "(char \<Rightarrow> bool) \<Rightarrow> string \<Rightarrow> string list" where
  "split sep s =
     (case dropWhile (\<lambda>c. \<not> sep c) s of
        [] \<Rightarrow> [s]
      | d # rest \<Rightarrow> takeWhile (\<lambda>c. \<not> sep c) s # split sep (dropWhile sep rest))"
  by pat_completeness auto
termination
proof (relation "measure (\<lambda>(sep, s). length s)")
  show "wf (measure (\<lambda>(sep, s). length s))" by simp
next
  fix sep :: "char \<Rightarrow> bool" and s :: string and d rest
  assume a: "dropWhile (\<lambda>c. \<not> sep c) s = d # rest"
  have "length (dropWhile sep rest) \<le> length rest" by (rule length_dropWhile_le)
  moreover have "length (d # rest) \<le> length s"
    using length_dropWhile_le [of "\<lambda>c. \<not> sep c" s] a by simp
  ultimately show "((sep, dropWhile sep rest), (sep, s)) \<in> measure (\<lambda>(sep, s). length s)"
    by simp
qed

declare split.simps [simp del]

text \<open>The decimal numeral of a number, as a template literal \<open>${n}\<close> prints it.\<close>

definition digit :: "nat \<Rightarrow> char" where
  "digit d = char_of (48 + d)"

function showNat :: "nat \<Rightarrow> string" where
  "showNat n = (if n < 10 then [digit n] else showNat (n div 10) @ [digit (n mod 10)])"
  by pat_completeness auto
termination
  by (relation "measure (\<lambda>n. n)") auto

declare showNat.simps [simp del]

definition showInt :: "int \<Rightarrow> string" where
  "showInt i = (if i < 0 then CHR ''-'' # showNat (nat (- i)) else showNat (nat i))"

section \<open>Text segmenter\<close>

text \<open>\<open>text.split(/[.!?\n]+/).map(s => s.trim()).filter(s => s.length > 10)\<close>\<close>

definition isSentenceDelimiter :: "char \<Rightarrow> bool" where
  "isSentenceDelimiter c = (c = CHR ''.'' \<or> c = CHR ''!'' \<or> c = CHR ''?'' \<or> c = CHR 0x0A)"

definition extractSentences :: "string \<Rightarrow> string list" where
  "extractSentences text =
     filter (\<lambda>s. length s > 10) (map trim (split isSentenceDelimiter text))"

section \<open>Token normalizer\<close>

text \<open>\<open>word.replace(/suf$/, "")\<close>: without the \<open>m\<close> flag \<open>$\<close> is the end of the string, so
  the one possible match is the suffix itself.\<close>

definition replaceEnd :: "string \<Rightarrow> string \<Rightarrow> string" where
  "replaceEnd suf word = (if endsWith word suf then take (length word - length suf) word else word)"

definition SUFFIXES :: "string list" where
  "SUFFIXES = [''ing'', ''tion'', ''ment'', ''ness'', ''able'', ''ful'', ''less'', ''ous'',
     ''ive'', ''ly'', ''ed'', ''er'', ''es'', ''s'']"

text \<open>The chain of fourteen \<open>.replace\<close> calls, each on the result of the one before.\<close>

definition normalizeToken :: "string \<Rightarrow> string" where
  "normalizeToken word = foldl (\<lambda>w suf. replaceEnd suf w) word SUFFIXES"

text \<open>\<open>[^a-z0-9\s]\<close> deletes every character that is not a lower-case ASCII letter, a digit
  or white space.\<close>

definition isLowerAlnum :: "char \<Rightarrow> bool" where
  "isLowerAlnum c = ((97 \<le> code c \<and> code c \<le> 122) \<or> (48 \<le> code c \<and> code c \<le> 57))"

definition getTokens :: "string \<Rightarrow> string list" where
  "getTokens text =
     filter (\<lambda>w. length w > 2)
       (split isWhiteSpace (filter (\<lambda>c. isLowerAlnum c \<or> isWhiteSpace c) (toLowerCase text)))"

section \<open>Similarity engine\<close>

text \<open>\<open>new Set(xs)\<close>: the elements in insertion order, each kept at its first occurrence;
  \<open>.size\<close> is the length of that list.\<close>

fun newSet :: "'a list \<Rightarrow> 'a list" where
  "newSet [] = []"
| "newSet (x # xs) = x # filter (\<lambda>y. y \<noteq> x) (newSet xs)"

text \<open>The quotient of two integers below \<open>2^53\<close> is a correctly rounded double; against the
  thresholds \<open>0.35\<close> and \<open>0.25\<close> and against \<open>1\<close> it compares as the exact rational does,
  so the score is a \<^typ>\<open>rat\<close>.\<close>

definition semanticSimilarity :: "string \<Rightarrow> string \<Rightarrow> rat" where
  "semanticSimilarity a b =
     (let tokensA = newSet (map normalizeToken (getTokens a));
          tokensB = newSet (map normalizeToken (getTokens b))
      in if length tokensA = 0 \<or> length tokensB = 0 then 0
         else let overlap = length (filter (\<lambda>t. t \<in> set tokensB) tokensA)
              in of_nat overlap / of_nat (min (length tokensA) (length tokensB)))"

section \<open>Clusterer\<close>

text \<open>The inner loop body for one \<open>j\<close>, on the pair of the open cluster and the set
  \<open>assigned\<close>; then the outer loop body for one \<open>i\<close>, on the clusters pushed so far and
  \<open>assigned\<close>. Both loops count upwards over a fixed range.\<close>

definition absorb ::
  "string list \<Rightarrow> rat \<Rightarrow> nat \<Rightarrow> string list \<times> nat set \<Rightarrow> nat \<Rightarrow> string list \<times> nat set" where
  "absorb sentences threshold i st j =
     (case st of (cluster, assigned) \<Rightarrow>
        if j \<in> assigned then (cluster, assigned)
        else if semanticSimilarity (sentences ! i) (sentences ! j) \<ge> threshold
          then (cluster @ [sentences ! j], insert j assigned)
          else (cluster, assigned))"

definition seed ::
  "string list \<Rightarrow> rat \<Rightarrow> string list list \<times> nat set \<Rightarrow> nat \<Rightarrow> string list list \<times> nat set" where
  "seed sentences threshold st i =
     (case st of (clusters, assigned) \<Rightarrow>
        if i \<in> assigned then (clusters, assigned)
        else case foldl (absorb sentences threshold i) ([sentences ! i], insert i assigned)
                    [i + 1 ..< length sentences] of
               (cluster, assigned') \<Rightarrow> (clusters @ [cluster], assigned'))"

definition clusterSentences :: "string list \<Rightarrow> rat \<Rightarrow> string list list" where
  "clusterSentences sentences threshold =
     fst (foldl (seed sentences threshold) ([], {}) [0 ..< length sentences])"

section \<open>Regular expressions\<close>

text \<open>
  Every regular expression object of the source has the shape \<open>/\b(w1|w2|...)\b/i\<close>: a
  word boundary, one of the listed alternatives, a word boundary. A \<open>RegExp\<close> object is
  mutable: it carries \<open>lastIndex\<close>, which \<open>test\<close> reads and writes when the \<open>g\<close> flag is
  set. The objects of \<open>IMPLICIT_THEME_PATTERNS\<close> live at module level and are shared by
  all invocations, so \<open>test\<close> returns the object next to its answer.
\<close>

record RegExp =
  alternatives :: "string list"
  flags :: string
  lastIndex :: nat

definition ignoreCase :: "RegExp \<Rightarrow> bool" where
  "ignoreCase rx = (CHR ''i'' \<in> set (flags rx))"

definition global :: "RegExp \<Rightarrow> bool" where
  "global rx = (CHR ''g'' \<in> set (flags rx))"

text \<open>\<open>\w\<close> is \<open>[A-Za-z0-9_]\<close>.\<close>

definition isWordChar :: "char \<Rightarrow> bool" where
  "isWordChar c = ((97 \<le> code c \<and> code c \<le> 122) \<or> (65 \<le> code c \<and> code c \<le> 90)
     \<or> (48 \<le> code c \<and> code c \<le> 57) \<or> code c = 95)"

text \<open>\<open>Canonicalize\<close> under the \<open>i\<close> flag compares upper-case forms, given here by their
  code units. The three Latin-1 letters whose upper-case form is no single Latin-1 code unit
  (\<open>U+00B5\<close>, \<open>U+00DF\<close>, \<open>U+00FF\<close>) are equal to themselves only, as here.\<close>

definition canonicalize :: "RegExp \<Rightarrow> char \<Rightarrow> nat" where
  "canonicalize rx c =
     (if ignoreCase rx \<and>
         ((97 \<le> code c \<and> code c \<le> 122) \<or> (224 \<le> code c \<and> code c \<le> 254 \<and> code c \<noteq> 247))
      then code c - 32 else code c)"

text \<open>\<open>\b\<close> between two neighbours: exactly one of the character before and the character
  after is a word character; beyond either end of the string there is none.\<close>

definition wordBoundary :: "char option \<Rightarrow> char option \<Rightarrow> bool" where
  "wordBoundary before after =
     ((case before of None \<Rightarrow> False | Some c \<Rightarrow> isWordChar c)
      \<noteq> (case after of None \<Rightarrow> False | Some c \<Rightarrow> isWordChar c))"

definition peek :: "string \<Rightarrow> char option" where
  "peek s = (case s of [] \<Rightarrow> None | c # _ \<Rightarrow> Some c)"

text \<open>One alternative \<open>w\<close> against the input \<open>s\<close> that follows the character \<open>before\<close>: when
  the input starts with \<open>w\<close>, the last character consumed and the rest of the input.\<close>

fun consume :: "RegExp \<Rightarrow> string \<Rightarrow> char option \<Rightarrow> string \<Rightarrow> (char option \<times> string) option" where
  "consume rx [] before s = Some (before, s)"
| "consume rx (p # ps) before [] = None"
| "consume rx (p # ps) before (c # cs) =
     (if canonicalize rx p = canonicalize rx c then consume rx ps (Some c) cs else None)"

definition alternativeAt :: "RegExp \<Rightarrow> char option \<Rightarrow> string \<Rightarrow> string \<Rightarrow> bool" where
  "alternativeAt rx before s w =
     (case consume rx w before s of
        None \<Rightarrow> False
      | Some (final, rest) \<Rightarrow> wordBoundary final (peek rest))"

text \<open>The match that starts right here, if any: after the opening \<open>\b\<close>, the first
  alternative, in their order, after which the closing \<open>\b\<close> holds. The result is the
  length of the match.\<close>

definition matchAt :: "RegExp \<Rightarrow> char option \<Rightarrow> string \<Rightarrow> nat option" where
  "matchAt rx before s =
     (if wordBoundary before (peek s)
      then map_option length (find (alternativeAt rx before s) (alternatives rx))
      else None)"

text \<open>The leftmost match at or after index \<open>i\<close>, where \<open>s\<close> is the input from \<open>i\<close> on: every
  start index up to the end of the string is tried. The result is the end index of the
  match.\<close>

fun search :: "RegExp \<Rightarrow> nat \<Rightarrow> char option \<Rightarrow> string \<Rightarrow> nat option" where
  "search rx i before [] = map_option (\<lambda>n. i + n) (matchAt rx before [])"
| "search rx i before (c # cs) =
     (case matchAt rx before (c # cs) of
        Some n \<Rightarrow> Some (i + n)
      | None \<Rightarrow> search rx (Suc i) (Some c) cs)"

text \<open>\<open>RegExpBuiltinExec\<close>: the search starts at \<open>lastIndex\<close> under \<open>g\<close> and at 0
  otherwise. Under \<open>g\<close> it stores the end index of the match, or 0 after a failure.\<close>

definition RegExp_exec :: "RegExp \<Rightarrow> string \<Rightarrow> nat option \<times> RegExp" where
  "RegExp_exec rx s =
     (let start = (if global rx then lastIndex rx else 0)
      in if start > length s then (None, if global rx then rx\<lparr>lastIndex := 0\<rparr> else rx)
         else case search rx start (if start = 0 then None else Some (s ! (start - 1)))
                     (drop start s) of
                None \<Rightarrow> (None, if global rx then rx\<lparr>lastIndex := 0\<rparr> else rx)
              | Some e \<Rightarrow> (Some e, if global rx then rx\<lparr>lastIndex := e\<rparr> else rx))"

definition RegExp_test :: "RegExp \<Rightarrow> string \<Rightarrow> bool \<times> RegExp" where
  "RegExp_test rx s = (case RegExp_exec rx s of (m, rx') \<Rightarrow> (m \<noteq> None, rx'))"

text \<open>A regular expression literal, as \<open>/\b(...)\b/i\<close> creates it.\<close>

definition regExp :: "string list \<Rightarrow> string \<Rightarrow> RegExp" where
  "regExp alts fl = \<lparr>alternatives = alts, flags = fl, lastIndex = 0\<rparr>"

section \<open>Sentiment inferrer\<close>

datatype polarity = positive | negative | neutral

definition negativeSignals :: "string list" where
  \<open>negativeSignals = [''but'', ''however'', ''although'', ''unfortunately'', ''wish'', ''if only'',
     ''struggle'', ''hard'', ''difficult'', ''problem'', ''issue'', ''can't'', ''cannot'', ''won't'',
     ''shouldn't'', ''bad'', ''worse'', ''worst'', ''lack'', ''poor'', ''no way'', ''not good'',
     ''not great'', ''could be better'', ''needs work'', ''too much'', ''too many'', ''not enough'']\<close>

definition positiveSignals :: "string list" where
  \<open>positiveSignals = [''thank'', ''appreciate'', ''glad'', ''happy'', ''enjoy'', ''pleased'',
     ''excellent'', ''wonderful'', ''fantastic'', ''good job'', ''well done'', ''perfect'',
     ''works well'', ''impressed'', ''helpful'', ''nice'', ''solid'', ''clean'', ''fast'', ''quick'']\<close>

definition inferSentiment :: "string \<Rightarrow> polarity" where
  "inferSentiment sentence =
     (let lower = toLowerCase sentence;
          negScore = length (filter (\<lambda>s. includesStr lower s) negativeSignals);
          posScore = length (filter (\<lambda>s. includesStr lower s) positiveSignals)
      in if negScore > posScore then negative
         else if posScore > negScore then positive
         else neutral)"

section \<open>Taxonomy tables\<close>

text \<open>An entry of \<open>PAIN_KEYWORDS\<close> is the pair of its \<open>keywords\<close> and its \<open>issue\<close>.\<close>

definition PAIN_KEYWORDS :: "(string list \<times> string) list" where
  \<open>PAIN_KEYWORDS = [
     ([''slow'', ''loading'', ''wait'', ''lag'', ''performance'', ''takes forever'', ''too long'', ''speed''],
      ''Performance & Speed Issues''),
     ([''confus'', ''unclear'', ''hard to find'', ''lost'', ''where'', ''navigate'', ''find'', ''hidden'', ''buried''],
      ''Navigation & Discoverability''),
     ([''bug'', ''crash'', ''error'', ''broken'', ''doesn't work'', ''fail'', ''glitch'', ''freeze'', ''stuck'', ''hang''],
      ''Reliability & Bugs''),
     ([''price'', ''expensive'', ''cost'', ''pay'', ''subscription'', ''billing'', ''charge'', ''fee'', ''worth''],
      ''Pricing Concerns''),
     ([''support'', ''help'', ''response'', ''contact'', ''ticket'', ''resolve'', ''agent'', ''wait time'', ''reply''],
      ''Customer Support Quality''),
     ([''design'', ''ugly'', ''outdated'', ''look'', ''ui'', ''interface'', ''layout'', ''visual'', ''aesthetic'', ''cluttered''],
      ''UI/UX Design Quality''),
     ([''feature'', ''missing'', ''need'', ''wish'', ''want'', ''should'', ''add'', ''include'', ''implement'', ''request''],
      ''Missing Features''),
     ([''mobile'', ''phone'', ''app'', ''responsive'', ''tablet'', ''small screen'', ''touch''],
      ''Mobile Experience''),
     ([''security'', ''privacy'', ''data'', ''breach'', ''hack'', ''protect'', ''encrypt'', ''password''],
      ''Security & Privacy Concerns''),
     ([''document'', ''docs'', ''tutorial'', ''guide'', ''learn'', ''how to'', ''instruction'', ''manual''],
      ''Documentation & Learning Resources''),
     ([''integrat'', ''connect'', ''api'', ''plugin'', ''extension'', ''third-party'', ''sync'', ''import'', ''export''],
      ''Integration & Compatibility'')]\<close>

text \<open>An entry of \<open>EMOTION_KEYWORDS\<close>: \<open>keywords\<close>, \<open>emotion\<close>, \<open>sentiment\<close>.\<close>

definition EMOTION_KEYWORDS :: "(string list \<times> string \<times> polarity) list" where
  \<open>EMOTION_KEYWORDS = [
     ([''frustrat'', ''annoyed'', ''angry'', ''hate'', ''terrible'', ''fed up'', ''sick of'', ''ridiculous''],
      ''Frustration'', negative),
     ([''confus'', ''unclear'', ''don't understand'', ''complicated'', ''complex'', ''overwhelming'', ''lost''],
      ''Confusion'', negative),
     ([''love'', ''great'', ''amazing'', ''awesome'', ''best'', ''fantastic'', ''wonderful'', ''excellent''],
      ''Delight'', positive),
     ([''trust'', ''reliable'', ''secure'', ''safe'', ''depend'', ''confident'', ''consistent''],
      ''Trust'', positive),
     ([''disappoint'', ''expected'', ''letdown'', ''underwhelm'', ''let down'', ''fell short''],
      ''Disappointment'', negative),
     ([''easy'', ''simple'', ''intuitive'', ''smooth'', ''seamless'', ''effortless'', ''straightforward''],
      ''Satisfaction'', positive),
     ([''anxious'', ''worried'', ''concern'', ''nervous'', ''afraid'', ''scary'', ''uncertain''],
      ''Anxiety'', negative),
     ([''excit'', ''eager'', ''look forward'', ''can't wait'', ''thrilled'', ''pumped''],
      ''Excitement'', positive)]\<close>

text \<open>An entry of \<open>BIAS_PATTERNS\<close>: \<open>keywords\<close>, \<open>bias\<close>, \<open>impact\<close>.\<close>

definition BIAS_PATTERNS :: "(string list \<times> string \<times> string) list" where
  \<open>BIAS_PATTERNS = [
     ([''always'', ''never'', ''every time'', ''constantly'', ''without fail''],
      ''Frequency Illusion'', ''Users may overstate issue frequency''),
     ([''used to'', ''before'', ''old version'', ''previous'', ''back when'', ''the way it was''],
      ''Status Quo Bias'', ''Resistance to change may skew feedback''),
     ([''everyone'', ''nobody'', ''all users'', ''we all'', ''most people'', ''no one''],
      ''False Consensus Effect'', ''Individual opinions projected as group sentiment''),
     ([''first time'', ''initial'', ''when i started'', ''first impression'', ''right away''],
      ''Primacy Effect'', ''First impressions disproportionately shape perception''),
     ([''just now'', ''recently'', ''last time'', ''today'', ''this week'', ''latest''],
      ''Recency Bias'', ''Recent experiences weighted more heavily''),
     ([''compared to'', ''unlike'', ''better than'', ''worse than'', ''competitor'', ''alternative''],
      ''Anchoring Bias'', ''Comparisons to competitors anchor expectations'')]\<close>

text \<open>An entry of \<open>IMPLICIT_THEME_PATTERNS\<close>: \<open>patterns\<close> (the regular expression
  objects), \<open>theme\<close>, \<open>description\<close>, \<open>user_segment\<close>. The table holds the only mutable
  objects of the module and is its state between invocations; the constant is the state
  after the module is loaded.\<close>

type_synonym theme_pattern = "RegExp list \<times> string \<times> string \<times> string"

definition IMPLICIT_THEME_PATTERNS :: "theme_pattern list" where
  \<open>IMPLICIT_THEME_PATTERNS = [
     ([regExp [''quick'', ''fast'', ''hurry'', ''rush'', ''time'', ''efficient'', ''productive''] ''i''],
      ''Efficiency Seeking'', ''Users prioritize speed and streamlined workflows'',
      ''Productivity-Focused Users''),
     ([regExp [''try'', ''test'', ''experiment'', ''explore'', ''discover'', ''check out'', ''play with''] ''i''],
      ''Feature Exploration'', ''Users actively discover and evaluate capabilities'',
      ''Exploratory Users''),
     ([regExp [''reliable'', ''stable'', ''consistent'', ''depend'', ''count on'', ''trust''] ''i''],
      ''Reliability Dependence'', ''Users need predictable, stable experiences'',
      ''Mission-Critical Users''),
     ([regExp [''automat'', ''workflow'', ''repeat'', ''batch'', ''routine'', ''template'', ''preset''] ''i''],
      ''Automation Desire'', ''Users seek to reduce repetitive manual work'',
      ''Power Users''),
     ([regExp [''compare'', ''switch'', ''migrate'', ''alternative'', ''option'', ''choice''] ''i''],
      ''Evaluation Mindset'', ''Users actively compare against alternatives'',
      ''Evaluating Users''),
     ([regExp [''learn'', ''understand'', ''figure out'', ''how do'', ''how to'', ''tutorial'', ''guide''] ''i''],
      ''Learning Orientation'', ''Users invest in understanding the product deeply'',
      ''Self-Directed Learners''),
     ([regExp [''daily'', ''every day'', ''morning'', ''routine'', ''regular'', ''habit'', ''always use''] ''i''],
      ''Habitual Usage'', ''Product is embedded in daily workflows'',
      ''Daily Active Users''),
     ([regExp [''suggest'', ''recommend'', ''feedback'', ''idea'', ''opinion'', ''vote'', ''survey''] ''i''],
      ''Co-Creation Drive'', ''Users want to influence product direction'',
      ''Engaged Advocates'')]\<close>

section \<open>The report\<close>

datatype tier = high | medium | low

record pain_point =
  issue :: string
  frequency :: string
  severity :: tier
  quotes :: "string list"

record emotional_pattern =
  emotion :: string
  intensity :: string
  trigger :: string
  sentiment :: polarity

record behavioral_theme =
  theme :: string
  description :: string
  user_segment :: string

record cognitive_bias =
  bias :: string
  evidence :: string
  impact :: string

record persona =
  name :: string
  role :: string
  goals :: "string list"
  frustrations :: "string list"
  quote :: string

record recommendation =
  priority :: tier
  category :: string
  action :: string
  expected_impact :: string

record AnalysisResult =
  pain_points :: "pain_point list"
  emotional_patterns :: "emotional_pattern list"
  behavioral_themes :: "behavioral_theme list"
  cognitive_biases :: "cognitive_bias list"
  personas :: "persona list"
  recommendations :: "recommendation list"
  executive_summary :: string

text \<open>Reading a property of \<open>undefined\<close> throws a \<open>TypeError\<close>; nothing else in the module
  can throw.\<close>

datatype error = TypeError

text \<open>\<open>xs[i]\<close> is \<open>undefined\<close> outside the array, and \<open>x || d\<close> is \<open>d\<close> when \<open>x\<close> is
  \<open>undefined\<close> or the empty string.\<close>

definition elementAt :: "'a list \<Rightarrow> nat \<Rightarrow> 'a option" where
  "elementAt xs i = (if i < length xs then Some (xs ! i) else None)"

definition orElse :: "string option \<Rightarrow> string \<Rightarrow> string" where
  "orElse x d = (case x of None \<Rightarrow> d | Some s \<Rightarrow> if s = [] then d else s)"

text \<open>\<open>xs.join(sep)\<close>\<close>

fun join :: "string \<Rightarrow> string list \<Rightarrow> string" where
  "join sep [] = []"
| "join sep [x] = x"
| "join sep (x # y # ys) = x @ sep @ join sep (y # ys)"

text \<open>\<open>xs.forEach\<close> with a body that may throw: the first error ends the loop.\<close>

fun mapE :: "('a \<Rightarrow> error + 'b) \<Rightarrow> 'a list \<Rightarrow> error + 'b list" where
  "mapE f [] = Inr []"
| "mapE f (x # xs) =
     (case f x of
        Inl e \<Rightarrow> Inl e
      | Inr y \<Rightarrow> (case mapE f xs of Inl e \<Rightarrow> Inl e | Inr ys \<Rightarrow> Inr (y # ys)))"

section \<open>Pain points\<close>

definition sevOrder :: "tier \<Rightarrow> int" where
  "sevOrder t = (case t of high \<Rightarrow> 3 | medium \<Rightarrow> 2 | low \<Rightarrow> 1)"

text \<open>The body of \<open>PAIN_KEYWORDS.map\<close>, \<open>null\<close> being \<open>None\<close>. \<open>Math.floor(clusterBoost * 0.5)\<close>
  is \<open>clusterBoost div 2\<close> on integers.\<close>

definition painPoint ::
  "string list \<Rightarrow> string list list \<Rightarrow> string list \<times> string \<Rightarrow> pain_point option" where
  "painPoint sentences clusters p =
     (case p of (keywords, p_issue) \<Rightarrow>
        let matchingSentences =
              filter (\<lambda>s. list_ex (\<lambda>k. includesStr (toLowerCase s) k) keywords) sentences;
            clusterBoost =
              (if length matchingSentences > 0
               then int (sum_list (map length
                      (filter (\<lambda>c. list_ex (\<lambda>s. s \<in> set matchingSentences) c) clusters)))
                    - int (length matchingSentences)
               else 0);
            totalMentions = int (length matchingSentences) + clusterBoost div 2
        in if totalMentions = 0 then None
           else Some \<lparr>issue = p_issue,
                  frequency = showInt totalMentions @ '' mention''
                              @ (if totalMentions > 1 then ''s'' else []),
                  severity = (if totalMentions \<ge> 3 then high
                              else if totalMentions \<ge> 2 then medium else low),
                  quotes = take 3 matchingSentences\<rparr>)"

text \<open>\<open>.filter(Boolean).sort(...)\<close>: \<open>Array.prototype.sort\<close> is stable, and the comparator
  \<open>sevOrder[b.severity] - sevOrder[a.severity]\<close> orders by falling \<open>sevOrder\<close>.\<close>

definition explicitPainPoints :: "string list \<Rightarrow> string list list \<Rightarrow> pain_point list" where
  "explicitPainPoints sentences clusters =
     sort_key (\<lambda>a. - sevOrder (severity a))
       (List.map_filter (painPoint sentences clusters) PAIN_KEYWORDS)"

text \<open>The body of \<open>inferredClusters.slice(0, 3).forEach\<close>; \<open>cluster[0].length\<close> throws when
  the cluster is empty.\<close>

definition inferredPainPoint :: "string list \<Rightarrow> error + pain_point" where
  \<open>inferredPainPoint cluster =
     (case cluster of
        [] \<Rightarrow> Inl TypeError
      | c0 # _ \<Rightarrow>
          let label = (if length c0 > 60 then take 57 c0 @ ''...'' else c0)
          in Inr \<lparr>issue = ''Inferred Issue: "'' @ label @ ''"'',
                 frequency = showNat (length cluster) @ '' mention''
                             @ (if length cluster > 1 then ''s'' else []),
                 severity = (if length cluster \<ge> 3 then high
                             else if length cluster \<ge> 2 then medium else low),
                 quotes = take 2 cluster\<rparr>)\<close>

definition painPoints :: "string list \<Rightarrow> string list list \<Rightarrow> error + pain_point list" where
  "painPoints sentences clusters =
     (let pain_points = explicitPainPoints sentences clusters
      in if length pain_points = 0
         then let negativeSentences = filter (\<lambda>s. inferSentiment s = negative) sentences
              in if length negativeSentences > 0
                 then case mapE inferredPainPoint
                             (take 3 (clusterSentences negativeSentences (1 / 4))) of
                        Inl e \<Rightarrow> Inl e
                      | Inr inferred \<Rightarrow> Inr (pain_points @ inferred)
                 else Inr pain_points
         else Inr pain_points)"

section \<open>Emotional patterns\<close>

text \<open>The intensity of a count, which the source writes out as a conditional expression at
  each of its four uses.\<close>

definition intensityOf :: "nat \<Rightarrow> string" where
  "intensityOf n = (if n \<ge> 3 then ''High'' else if n \<ge> 2 then ''Medium'' else ''Low'')"

definition emotionalPattern ::
  "string list \<Rightarrow> string list \<times> string \<times> polarity \<Rightarrow> emotional_pattern option" where
  "emotionalPattern sentences e =
     (case e of (keywords, e_emotion, e_sentiment) \<Rightarrow>
        let matches = filter (\<lambda>s. list_ex (\<lambda>k. includesStr (toLowerCase s) k) keywords) sentences
        in if length matches = 0 then None
           else Some \<lparr>emotion = e_emotion,
                  intensity = intensityOf (length matches),
                  trigger = orElse (elementAt matches 0) [],
                  sentiment = e_sentiment\<rparr>)"

text \<open>The body of \<open>sentences.forEach\<close> in the fallback, on \<open>sentimentCounts\<close> and
  \<open>sentimentExamples\<close>.\<close>

definition tally ::
  "(polarity \<Rightarrow> nat) \<times> (polarity \<rightharpoonup> string) \<Rightarrow> string
     \<Rightarrow> (polarity \<Rightarrow> nat) \<times> (polarity \<rightharpoonup> string)" where
  "tally st s =
     (case st of (sentimentCounts, sentimentExamples) \<Rightarrow>
        let sent = inferSentiment s
        in (sentimentCounts(sent := sentimentCounts sent + 1),
            if orElse (sentimentExamples sent) [] = [] then sentimentExamples(sent \<mapsto> s)
            else sentimentExamples))"

definition emotionalPatterns :: "string list \<Rightarrow> emotional_pattern list" where
  "emotionalPatterns sentences =
     (let emotional_patterns = List.map_filter (emotionalPattern sentences) EMOTION_KEYWORDS
      in if length emotional_patterns = 0
         then case foldl tally (\<lambda>_. 0, Map.empty) sentences of
           (sentimentCounts, sentimentExamples) \<Rightarrow>
              emotional_patterns
              @ (if sentimentCounts negative > 0
                 then [\<lparr>emotion = ''Implicit Dissatisfaction'',
                        intensity = intensityOf (sentimentCounts negative),
                        trigger = orElse (sentimentExamples negative) [],
                        sentiment = negative\<rparr>]
                 else [])
              @ (if sentimentCounts positive > 0
                 then [\<lparr>emotion = ''Implicit Approval'',
                        intensity = intensityOf (sentimentCounts positive),
                        trigger = orElse (sentimentExamples positive) [],
                        sentiment = positive\<rparr>]
                 else [])
              @ (if sentimentCounts neutral > 0 \<and> sentimentCounts positive = 0
                    \<and> sentimentCounts negative = 0
                 then [\<lparr>emotion = ''Neutral Engagement'',
                        intensity = ''Low'',
                        trigger = orElse (sentimentExamples neutral) [],
                        sentiment = neutral\<rparr>]
                 else [])
         else emotional_patterns)"

section \<open>Behavioral themes\<close>

text \<open>The four explicit keyword checks on the whole lower-cased text.\<close>

definition explicitThemes :: "string \<Rightarrow> behavioral_theme list" where
  "explicitThemes lowerText =
     (if includesStr lowerText ''power user'' \<or> includesStr lowerText ''advanced''
         \<or> includesStr lowerText ''shortcut''
      then [\<lparr>theme = ''Power User Optimization'',
             description = ''Users seek efficiency and advanced workflows'',
             user_segment = ''Advanced Users''\<rparr>]
      else [])
     @ (if includesStr lowerText ''first time'' \<or> includesStr lowerText ''new''
           \<or> includesStr lowerText ''beginner'' \<or> includesStr lowerText ''onboard''
        then [\<lparr>theme = ''Onboarding Friction'',
               description = ''New users struggle with initial setup and learning curve'',
               user_segment = ''New Users''\<rparr>]
        else [])
     @ (if includesStr lowerText ''team'' \<or> includesStr lowerText ''collaborat''
           \<or> includesStr lowerText ''share'' \<or> includesStr lowerText ''together''
        then [\<lparr>theme = ''Collaboration Needs'',
               description = ''Users want better team workflows and sharing capabilities'',
               user_segment = ''Team Users''\<rparr>]
        else [])
     @ (if includesStr lowerText ''custom'' \<or> includesStr lowerText ''configur''
           \<or> includesStr lowerText ''personali'' \<or> includesStr lowerText ''setting''
        then [\<lparr>theme = ''Customization Desire'',
               description = ''Users want more control over their experience'',
               user_segment = ''All Users''\<rparr>]
        else [])"

text \<open>\<open>p.patterns.some(rx => rx.test(s))\<close> stops at the first pattern that matches; every
  pattern it has tested is returned as \<open>test\<close> left it.\<close>

fun patternsSome :: "RegExp list \<Rightarrow> string \<Rightarrow> bool \<times> RegExp list" where
  "patternsSome [] s = (False, [])"
| "patternsSome (rx # rxs) s =
     (case RegExp_test rx s of
        (True, rx') \<Rightarrow> (True, rx' # rxs)
      | (False, rx') \<Rightarrow> (case patternsSome rxs s of (b, rxs') \<Rightarrow> (b, rx' # rxs')))"

text \<open>\<open>sentences.filter(s => p.patterns.some(...)).length\<close>\<close>

fun matchCount :: "RegExp list \<Rightarrow> string list \<Rightarrow> nat \<times> RegExp list" where
  "matchCount rxs [] = (0, rxs)"
| "matchCount rxs (s # ss) =
     (case patternsSome rxs s of
        (b, rxs') \<Rightarrow> (case matchCount rxs' ss of (n, rxs'') \<Rightarrow> ((if b then 1 else 0) + n, rxs'')))"

text \<open>\<open>IMPLICIT_THEME_PATTERNS.forEach\<close>: \<open>behavioral_themes\<close> as pushed so far goes in (\<open>themes\<close>), the themes and
  the table as the loop leaves it come out. \<open>existingThemes\<close> is the set built before the
  loop, which the loop does not change.\<close>

fun implicitThemes ::
  "string set \<Rightarrow> string list \<Rightarrow> behavioral_theme list \<Rightarrow> theme_pattern list
     \<Rightarrow> behavioral_theme list \<times> theme_pattern list" where
  "implicitThemes existingThemes sentences themes [] = (themes, [])"
| "implicitThemes existingThemes sentences themes (p # ps) =
     (case p of (patterns, p_theme, p_description, p_user_segment) \<Rightarrow>
        if p_theme \<in> existingThemes
        then (case implicitThemes existingThemes sentences themes ps of
                (themes', ps') \<Rightarrow> (themes', p # ps'))
        else (case matchCount patterns sentences of
                (n, patterns') \<Rightarrow>
                  (case implicitThemes existingThemes sentences
                          (if n > 0
                           then themes
                                @ [\<lparr>theme = p_theme, description = p_description,
                                     user_segment = p_user_segment\<rparr>]
                           else themes) ps of
                     (themes', ps') \<Rightarrow>
                       (themes', (patterns', p_theme, p_description, p_user_segment) # ps'))))"

text \<open>The body of \<open>topClusters.forEach\<close>; \<open>cluster[0].length\<close> throws when the cluster is
  empty.\<close>

definition clusterTheme :: "string list \<Rightarrow> error + behavioral_theme" where
  \<open>clusterTheme cluster =
     (case cluster of
        [] \<Rightarrow> Inl TypeError
      | c0 # _ \<Rightarrow>
          let summary = (if length c0 > 50 then take 47 c0 @ ''...'' else c0)
          in Inr \<lparr>theme = ''Recurring Theme: "'' @ summary @ ''"'',
                 description = showNat (length cluster)
                   @ '' semantically similar statements clustered around this topic'',
                 user_segment = ''Detected Segment''\<rparr>)\<close>

definition fallbacks :: "behavioral_theme list" where
  "fallbacks =
     [\<lparr>theme = ''Efficiency Seeking'',
       description = ''Users prioritize speed and streamlined workflows'',
       user_segment = ''All Users''\<rparr>,
      \<lparr>theme = ''Feature Exploration'',
       description = ''Users actively discover and request new capabilities'',
       user_segment = ''Engaged Users''\<rparr>]"

text \<open>The \<open>while (behavioral_themes.length < 2)\<close> loop of the final fallback, on
  \<open>behavioral_themes\<close> and \<open>existingThemes\<close>; \<open>break\<close> returns.\<close>

function finalFallback ::
  "behavioral_theme list \<Rightarrow> string set \<Rightarrow> behavioral_theme list \<times> string set" where
  "finalFallback themes existingThemes =
     (if length themes < 2
      then (case find (\<lambda>f. theme f \<notin> existingThemes) fallbacks of
              Some fb \<Rightarrow>
                finalFallback (themes @ [fb]) (insert (theme fb) existingThemes)
            | None \<Rightarrow> (themes, existingThemes))
      else (themes, existingThemes))"
  by pat_completeness auto
termination
  by (relation "measure (\<lambda>(ts, ex). 2 - length ts)") auto

declare finalFallback.simps [simp del]

text \<open>The whole theme classifier. The sort of the clusters is stable, by falling length.\<close>

definition behavioralThemes ::
  "theme_pattern list \<Rightarrow> string \<Rightarrow> string list \<Rightarrow> string list list
     \<Rightarrow> error + behavioral_theme list \<times> theme_pattern list" where
  "behavioralThemes table lowerText sentences clusters =
     (let explicit = explicitThemes lowerText;
          existingThemes = set (map theme explicit)
      in case implicitThemes existingThemes sentences explicit table of
           (themes, table') \<Rightarrow>
             if length themes < 2
             then let topClusters =
                        take (2 - length themes)
                          (sort_key (\<lambda>c. - int (length c)) (filter (\<lambda>c. length c \<ge> 2) clusters))
                  in case mapE clusterTheme topClusters of
                       Inl e \<Rightarrow> Inl e
                     | Inr recurring \<Rightarrow>
                         Inr (fst (finalFallback (themes @ recurring) existingThemes),
                              table')
             else Inr (themes, table'))"

section \<open>Cognitive biases\<close>

definition cognitiveBias :: "string \<Rightarrow> string list \<times> string \<times> string \<Rightarrow> cognitive_bias option" where
  "cognitiveBias lowerText b =
     (case b of (keywords, b_bias, b_impact) \<Rightarrow>
        let matchedKeywords = filter (\<lambda>k. includesStr lowerText k) keywords
        in if length matchedKeywords = 0 then None
           else Some \<lparr>bias = b_bias,
                  evidence = ''Keywords detected: '' @ join '', '' matchedKeywords,
                  impact = b_impact\<rparr>)"

text \<open>The two regular expression literals of the fallback are evaluated anew at each test,
  so no state of theirs outlives it.\<close>

definition absoluteLanguage :: RegExp where
  "absoluteLanguage = regExp [''always'', ''never'', ''every'', ''all'', ''none'', ''impossible'',
     ''definitely'', ''absolutely'', ''completely''] ''i''"

definition comparisonLanguage :: RegExp where
  "comparisonLanguage = regExp [''better'', ''worse'', ''more'', ''less'', ''than'', ''compared'',
     ''versus'', ''vs''] ''i''"

definition cognitiveBiases :: "string \<Rightarrow> string list \<Rightarrow> cognitive_bias list" where
  "cognitiveBiases lowerText sentences =
     (let cognitive_biases = List.map_filter (cognitiveBias lowerText) BIAS_PATTERNS
      in if length cognitive_biases = 0
         then let absoluteStatements =
                    filter (\<lambda>s. fst (RegExp_test absoluteLanguage s)) sentences;
                  comparisonStatements =
                    filter (\<lambda>s. fst (RegExp_test comparisonLanguage s)) sentences
              in cognitive_biases
                 @ (if length absoluteStatements > 0
                    then [\<lparr>bias = ''Absolutist Thinking'',
                           evidence = showNat (length absoluteStatements) @ '' statement''
                             @ (if length absoluteStatements > 1 then ''s'' else [])
                             @ '' using absolute language detected'',
                           impact = ''Extreme language may indicate emotionally-driven rather than balanced feedback''\<rparr>]
                    else [])
                 @ (if length comparisonStatements > 0
                    then [\<lparr>bias = ''Comparative Framing'',
                           evidence = showNat (length comparisonStatements)
                             @ '' comparative statement''
                             @ (if length comparisonStatements > 1 then ''s'' else [])
                             @ '' found'',
                           impact = ''Users evaluate features relative to past experience or competitors rather than absolute quality''\<rparr>]
                    else [])
         else cognitive_biases)"

section \<open>Personas, recommendations, summary\<close>

text \<open>\<open>pain_points[0].issue\<close> is read under the guard \<open>pain_points.length > 0\<close> only; the
  guard and the read are one case distinction here.\<close>

definition synthesizePersonas ::
  "string list \<Rightarrow> pain_point list \<Rightarrow> nat \<Rightarrow> nat \<Rightarrow> persona list" where
  \<open>synthesizePersonas sentences pains positiveCount negativeCount =
     (let topFrustrations =
            (if length pains > 0 then map issue (take 2 pains)
             else [''Unmet expectations'', ''Workflow friction''])
      in [\<lparr>name = ''Alex the Advocate'',
           role = (if positiveCount > negativeCount then ''Enthusiastic power user''
                   else ''Frustrated loyalist''),
           goals = [''Get work done efficiently'', ''Help improve the product'', ''Share with team''],
           frustrations = topFrustrations,
           quote = orElse (elementAt sentences 0) ''I use this daily but there's room to grow.''\<rparr>,
          \<lparr>name = ''Jordan the Explorer'',
           role = ''Curious newcomer evaluating options'',
           goals = [''Understand the product quickly'', ''Compare with alternatives'', ''Find value fast''],
           frustrations = ''Steep learning curve''
             # (case pains of p0 # _ \<Rightarrow> [issue p0] | [] \<Rightarrow> [''Unclear value proposition'']),
           quote = orElse (elementAt sentences (length sentences div 2))
                     ''I just want it to be straightforward.''\<rparr>])\<close>

text \<open>The body of \<open>pain_points.slice(0, 3).map((p, i) => ...)\<close>.\<close>

definition painRecommendation :: "nat \<times> pain_point \<Rightarrow> recommendation" where
  "painRecommendation ip =
     (case ip of (i, p) \<Rightarrow>
        \<lparr>priority = (if i = 0 then high else if i = 1 then medium else low),
         category = issue p,
         action = ''Address '' @ toLowerCase (issue p) @ '' based on '' @ frequency p
                  @ '' of user feedback'',
         expected_impact = (if severity p = high
                            then ''Significant improvement in user satisfaction''
                            else ''Moderate positive impact on user experience'')\<rparr>)"

text \<open>The bodies of the two \<open>forEach\<close> loops that push further recommendations, and of the
  loop over \<open>defaults\<close>.\<close>

definition emotionRecommendation :: "recommendation list \<Rightarrow> emotional_pattern \<Rightarrow> recommendation list" where
  "emotionRecommendation recs e =
     (if \<not> list_ex (\<lambda>r. includesStr (category r) (emotion e)) recs
      then recs @ [\<lparr>priority = (if intensity e = ''High'' then high else medium),
                    category = emotion e @ '' Mitigation'',
                    action = ''Investigate and address triggers of user '' @ toLowerCase (emotion e)
                             @ '' in the product experience'',
                    expected_impact = ''Reduced negative sentiment and improved emotional engagement''\<rparr>]
      else recs)"

definition themeRecommendation :: "recommendation list \<Rightarrow> behavioral_theme \<Rightarrow> recommendation list" where
  "themeRecommendation recs t =
     (if \<not> list_ex (\<lambda>r. category r = theme t) recs
      then recs @ [\<lparr>priority = medium,
                    category = theme t,
                    action = ''Optimize the experience for '' @ toLowerCase (user_segment t)
                             @ '' around '' @ toLowerCase (theme t),
                    expected_impact = ''Better alignment with observed user behavior patterns''\<rparr>]
      else recs)"

definition defaults :: "recommendation list" where
  "defaults =
     [\<lparr>priority = high, category = ''User Research'',
       action = ''Conduct targeted user interviews to validate inferred patterns'',
       expected_impact = ''Stronger evidence base for product decisions''\<rparr>,
      \<lparr>priority = medium, category = ''Feedback Loop'',
       action = ''Implement structured in-app feedback collection to capture richer signals'',
       expected_impact = ''Better data quality for ongoing analysis''\<rparr>]"

definition defaultRecommendation :: "recommendation list \<Rightarrow> recommendation \<Rightarrow> recommendation list" where
  "defaultRecommendation recs d =
     (if length recs < 2 \<and> \<not> list_ex (\<lambda>r. category r = category d) recs then recs @ [d]
      else recs)"

definition synthesizeRecommendations ::
  "pain_point list \<Rightarrow> emotional_pattern list \<Rightarrow> behavioral_theme list \<Rightarrow> recommendation list" where
  "synthesizeRecommendations pains emotions themes =
     (let fromPains = map painRecommendation (enumerate 0 (take 3 pains));
          withEmotions =
            foldl emotionRecommendation fromPains
              (take 2 (filter (\<lambda>e. sentiment e = negative \<and> intensity e \<noteq> ''Low'') emotions));
          withThemes = foldl themeRecommendation withEmotions (take 2 themes)
      in if length withThemes < 2 then foldl defaultRecommendation withThemes defaults
         else withThemes)"

definition summarize ::
  "pain_point list \<Rightarrow> emotional_pattern list \<Rightarrow> behavioral_theme list \<Rightarrow> cognitive_bias list
     \<Rightarrow> recommendation list \<Rightarrow> nat \<Rightarrow> nat \<Rightarrow> string" where
  \<open>summarize pains emotions themes biases recs positiveCount negativeCount =
     ''Analysis of user feedback reveals '' @ showNat (length pains) @ '' key pain point''
     @ (if length pains \<noteq> 1 then ''s'' else []) @ '' and '' @ showNat (length emotions)
     @ '' distinct emotional pattern'' @ (if length emotions \<noteq> 1 then ''s'' else []) @ ''. ''
     @ (if negativeCount > positiveCount
        then ''Overall sentiment skews negative, suggesting urgent attention to core issues.''
        else if positiveCount > negativeCount
        then ''Overall sentiment is positive, with targeted areas for improvement.''
        else ''Sentiment is mixed, indicating both strengths and areas needing attention.'')
     @ '' ''
     @ (case pains of
          p0 # _ \<Rightarrow> ''The most critical issue is "'' @ issue p0 @ ''" with '' @ frequency p0 @ ''.''
        | [] \<Rightarrow> [])
     @ '' ''
     @ (if length biases > 0
        then showNat (length biases) @ '' cognitive bias''
             @ (if length biases > 1 then ''es were'' else '' was'')
             @ '' detected, which should be considered when interpreting results.''
        else [])
     @ '' '' @ showNat (length themes) @ '' behavioral theme''
     @ (if length themes \<noteq> 1 then ''s were'' else '' was'') @ '' identified''
     @ (case themes of t0 # _ \<Rightarrow> '', including "'' @ theme t0 @ ''"'' | [] \<Rightarrow> [])
     @ ''. Two user personas were generated to guide product strategy, with ''
     @ showNat (length recs) @ '' actionable recommendations prioritized by impact.''\<close>

section \<open>The pipeline\<close>

text \<open>\<open>analyzeUserFeedback\<close>, run on the module's table of theme patterns: it returns the
  report and the table as it leaves it, or the error it throws.\<close>

definition analyzeUserFeedback ::
  "theme_pattern list \<Rightarrow> string \<Rightarrow> error + AnalysisResult \<times> theme_pattern list" where
  "analyzeUserFeedback table rawText =
     (let sentences = extractSentences rawText;
          lowerText = toLowerCase rawText;
          clusters = clusterSentences sentences (7 / 20)
      in case painPoints sentences clusters of
           Inl e \<Rightarrow> Inl e
         | Inr pains \<Rightarrow>
             let emotions = emotionalPatterns sentences
             in case behavioralThemes table lowerText sentences clusters of
                  Inl e \<Rightarrow> Inl e
                | Inr (themes, table') \<Rightarrow>
                    let biases = cognitiveBiases lowerText sentences;
                        negativeCount = length (filter (\<lambda>e. sentiment e = negative) emotions);
                        positiveCount = length (filter (\<lambda>e. sentiment e = positive) emotions);
                        recs = synthesizeRecommendations pains emotions themes
                    in Inr (\<lparr>pain_points = pains,
                              emotional_patterns = emotions,
                              behavioral_themes = themes,
                              cognitive_biases = biases,
                              personas = synthesizePersonas sentences pains positiveCount negativeCount,
                              recommendations = recs,
                              executive_summary =
                                summarize pains emotions themes biases recs positiveCount negativeCount\<rparr>,
                            table'))"

section \<open>Definitions used in the statements\<close>

text \<open>The normalizer as the specification words it: the first suffix of the list that the
  token ends with is removed, and nothing more. \<open>firstMatch\<close> finds that suffix and the
  suffixes listed after it.\<close>

fun stripFirstMatch :: "string list \<Rightarrow> string \<Rightarrow> string" where
  "stripFirstMatch [] word = word"
| "stripFirstMatch (suf # sufs) word =
     (if endsWith word suf then take (length word - length suf) word
      else stripFirstMatch sufs word)"

fun firstMatch :: "string list \<Rightarrow> string \<Rightarrow> (string \<times> string list) option" where
  "firstMatch [] word = None"
| "firstMatch (suf # sufs) word =
     (if endsWith word suf then Some (suf, sufs) else firstMatch sufs word)"

text \<open>\<open>weave pieces runs\<close> puts the pieces back together with a run of delimiters between
  neighbours; a string is \<open>trimmed\<close> when it neither starts nor ends with white space.\<close>

fun weave :: "string list \<Rightarrow> string list \<Rightarrow> string" where
  "weave [] runs = []"
| "weave (p # ps) [] = p"
| "weave (p # ps) (r # rs) = p @ r @ weave ps rs"

definition trimmed :: "string \<Rightarrow> bool" where
  "trimmed s = (s = [] \<or> (\<not> isWhiteSpace (hd s) \<and> \<not> isWhiteSpace (last s)))"

text \<open>The set of normalized tokens of a sentence, which the similarity compares.\<close>

definition tokenSet :: "string \<Rightarrow> string set" where
  "tokenSet s = set (map normalizeToken (getTokens s))"

text \<open>The clusterer once more, with the positions of the sentences in the clusters instead of
  the sentences themselves: the same two loops, the same tests, \<open>j\<close> pushed where the source
  pushes \<open>sentences[j]\<close>. It says which position went into which cluster.\<close>

definition absorbAt ::
  "string list \<Rightarrow> rat \<Rightarrow> nat \<Rightarrow> nat list \<times> nat set \<Rightarrow> nat \<Rightarrow> nat list \<times> nat set" where
  "absorbAt sentences threshold i st j =
     (case st of (cluster, assigned) \<Rightarrow>
        if j \<in> assigned then (cluster, assigned)
        else if semanticSimilarity (sentences ! i) (sentences ! j) \<ge> threshold
          then (cluster @ [j], insert j assigned)
          else (cluster, assigned))"

definition seedAt ::
  "string list \<Rightarrow> rat \<Rightarrow> nat list list \<times> nat set \<Rightarrow> nat \<Rightarrow> nat list list \<times> nat set" where
  "seedAt sentences threshold st i =
     (case st of (clusters, assigned) \<Rightarrow>
        if i \<in> assigned then (clusters, assigned)
        else case foldl (absorbAt sentences threshold i) ([i], insert i assigned)
                    [i + 1 ..< length sentences] of
               (cluster, assigned') \<Rightarrow> (clusters @ [cluster], assigned'))"

definition clusterPositions :: "string list \<Rightarrow> rat \<Rightarrow> nat list list" where
  "clusterPositions sentences threshold =
     fst (foldl (seedAt sentences threshold) ([], {}) [0 ..< length sentences])"

text \<open>The life of the module: \<open>analyzeUserFeedback\<close> invoked on one text after the other,
  each invocation on the table of theme patterns as the one before left it. (An invocation
  that throws would leave the table as it was when it threw; none does, and the model keeps
  the table it started with.) A table is \<open>stateless\<close> when none of its regular expressions
  has the \<open>g\<close> flag.\<close>

fun invocations :: "theme_pattern list \<Rightarrow> string list \<Rightarrow> (error + AnalysisResult) list" where
  "invocations table [] = []"
| "invocations table (rawText # rest) =
     (case analyzeUserFeedback table rawText of
        Inl e \<Rightarrow> Inl e # invocations table rest
      | Inr (r, table') \<Rightarrow> Inr r # invocations table' rest)"

definition stateless :: "theme_pattern list \<Rightarrow> bool" where
  "stateless table = list_all (\<lambda>p. list_all (\<lambda>rx. \<not> global rx) (fst p)) table"

text \<open>The mention count of a pain point as the specification words it: the number of
  sentences that contain one of the keywords, plus half (rounded down) of the cluster boost,
  which is the total size of the clusters that hold a matched sentence less the number of
  matched sentences; and the tier of a count.\<close>

definition matchedSentences :: "string list \<Rightarrow> string list \<Rightarrow> string list" where
  "matchedSentences keywords sentences =
     filter (\<lambda>s. \<exists>k\<in>set keywords. includesStr (toLowerCase s) k) sentences"

definition touchedSize :: "string list \<Rightarrow> string list list \<Rightarrow> nat" where
  "touchedSize matched clusters =
     sum_list (map length (filter (\<lambda>c. \<exists>s\<in>set c. s \<in> set matched) clusters))"

definition mentionCount :: "string list \<Rightarrow> string list \<Rightarrow> string list list \<Rightarrow> nat" where
  "mentionCount keywords sentences clusters =
     length (matchedSentences keywords sentences)
     + (touchedSize (matchedSentences keywords sentences) clusters
        - length (matchedSentences keywords sentences)) div 2"

definition tierOf :: "nat \<Rightarrow> tier" where
  "tierOf n = (if n = 1 then low else if n = 2 then medium else high)"

section \<open>Token normalizer: the chain of replacements\<close>

lemma replace_chain:
  "foldl (\<lambda>w suf. replaceEnd suf w) word sufs =
     (case firstMatch sufs word of
        None \<Rightarrow> word
      | Some (suf, later) \<Rightarrow>
          foldl (\<lambda>w s. replaceEnd s w) (take (length word - length suf) word) later)"
  by (induction sufs arbitrary: word) (simp_all add: replaceEnd_def)

text \<open>
  Claim C5, as the code has it. \<open>normalizeToken\<close> leaves a token that ends with none of the
  fourteen suffixes unchanged. Otherwise it removes the first suffix of the priority list that
  the token ends with, and goes on through the rest of the list: each suffix listed after the
  removed one is removed in turn from what is left, when what is left ends with it. A suffix
  listed before is not tried again. So more than one suffix can go (\<open>classes\<close> loses
  \<open>es\<close> and then \<open>s\<close>), and exactly one goes when the remainder ends with no later
  suffix.
\<close>

theorem normalizeToken_first_match_then_later:
  "normalizeToken word =
     (case firstMatch SUFFIXES word of
        None \<Rightarrow> word
      | Some (suf, later) \<Rightarrow>
          foldl (\<lambda>w s. replaceEnd s w) (take (length word - length suf) word) later)"
  unfolding normalizeToken_def by (rule replace_chain)

text \<open>Claim C5 as stated, one suffix and no more, fails at the token \<open>classes\<close>: the
  chain gives \<open>clas\<close>, the removal of the first match alone gives \<open>class\<close>.\<close>

theorem normalizeToken_strips_two_suffixes:
  "normalizeToken ''classes'' = ''clas'' \<and> stripFirstMatch SUFFIXES ''classes'' = ''class''"
  by code_simp

section \<open>Text segmenter\<close>

lemma split_Nil: "dropWhile (\<lambda>c. \<not> sep c) s = [] \<Longrightarrow> split sep s = [s]"
  by (subst split.simps) (simp only: list.case)

lemma split_Cons:
  "dropWhile (\<lambda>c. \<not> sep c) s = d # rest
     \<Longrightarrow> split sep s = takeWhile (\<lambda>c. \<not> sep c) s # split sep (dropWhile sep rest)"
  by (subst split.simps) (simp only: list.case)

lemma rev_dropWhile_takeWhile:
  "rev (dropWhile P (rev xs)) @ rev (takeWhile P (rev xs)) = xs"
proof -
  have "rev (takeWhile P (rev xs) @ dropWhile P (rev xs)) = rev (rev xs)"
    by (simp only: takeWhile_dropWhile_id)
  then show ?thesis by (simp only: rev_append rev_rev_ident)
qed

lemma split_no_separator: "p \<in> set (split sep s) \<Longrightarrow> c \<in> set p \<Longrightarrow> \<not> sep c"
proof (induction sep s arbitrary: p rule: split.induct)
  case (1 sep s)
  show ?case
  proof (cases "dropWhile (\<lambda>c. \<not> sep c) s")
    case Nil
    then have "\<forall>x\<in>set s. \<not> sep x" by (simp add: dropWhile_eq_Nil_conv)
    moreover from "1.prems"(1) have "p = s" by (simp add: split_Nil [OF Nil])
    ultimately show ?thesis using "1.prems"(2) by simp
  next
    case (Cons d rest)
    from Cons "1.prems"(1)
    have "p = takeWhile (\<lambda>c. \<not> sep c) s \<or> p \<in> set (split sep (dropWhile sep rest))"
      by (simp add: split_Cons [OF Cons])
    then show ?thesis
    proof
      assume "p = takeWhile (\<lambda>c. \<not> sep c) s"
      with "1.prems"(2) show ?thesis by (auto dest: set_takeWhileD)
    next
      assume "p \<in> set (split sep (dropWhile sep rest))"
      from "1.IH" [OF Cons this "1.prems"(2)] show ?thesis .
    qed
  qed
qed

lemma split_not_Nil: "split sep s \<noteq> []"
  by (cases "dropWhile (\<lambda>c. \<not> sep c) s") (simp_all add: split_Nil split_Cons)

lemma split_weave:
  "\<exists>runs. length runs + 1 = length (split sep s)
     \<and> (\<forall>r\<in>set runs. r \<noteq> [] \<and> (\<forall>c\<in>set r. sep c))
     \<and> weave (split sep s) runs = s"
proof (induction sep s rule: split.induct)
  case (1 sep s)
  show ?case
  proof (cases "dropWhile (\<lambda>c. \<not> sep c) s")
    case Nil
    then have "split sep s = [s]" by (rule split_Nil)
    then have "length ([]::string list) + 1 = length (split sep s)
        \<and> (\<forall>r\<in>set ([]::string list). r \<noteq> [] \<and> (\<forall>c\<in>set r. sep c))
        \<and> weave (split sep s) [] = s" by simp
    then show ?thesis by blast
  next
    case (Cons d rest)
    let ?p = "takeWhile (\<lambda>c. \<not> sep c) s"
    let ?s' = "dropWhile sep rest"
    let ?r = "d # takeWhile sep rest"
    from "1.IH" [OF Cons] obtain runs where
      runs: "length runs + 1 = length (split sep ?s')"
        "\<forall>r\<in>set runs. r \<noteq> [] \<and> (\<forall>c\<in>set r. sep c)"
        "weave (split sep ?s') runs = ?s'" by blast
    have sp: "split sep s = ?p # split sep ?s'"
      using Cons by (rule split_Cons)
    have "sep d" using hd_dropWhile [of "\<lambda>c. \<not> sep c" s] Cons by simp
    then have r_ok: "?r \<noteq> [] \<and> (\<forall>c\<in>set ?r. sep c)" by (auto dest: set_takeWhileD)
    have "s = ?p @ d # rest" using takeWhile_dropWhile_id [of "\<lambda>c. \<not> sep c" s] Cons by simp
    also have "rest = takeWhile sep rest @ ?s'" by simp
    finally have s_eq: "s = ?p @ ?r @ ?s'" by simp
    have "weave (split sep s) (?r # runs) = ?p @ ?r @ weave (split sep ?s') runs"
      by (simp add: sp)
    also have "\<dots> = s" using runs(3) s_eq by simp
    finally have w: "weave (split sep s) (?r # runs) = s" .
    have "length (?r # runs) + 1 = length (split sep s)" using runs(1) sp by simp
    moreover have "\<forall>r\<in>set (?r # runs). r \<noteq> [] \<and> (\<forall>c\<in>set r. sep c)"
      using runs(2) r_ok by simp
    ultimately show ?thesis using w by blast
  qed
qed

lemma split_butlast_nonempty:
  "s = [] \<or> \<not> sep (hd s) \<Longrightarrow> [] \<notin> set (butlast (split sep s))"
proof (induction sep s rule: split.induct)
  case (1 sep s)
  show ?case
  proof (cases "dropWhile (\<lambda>c. \<not> sep c) s")
    case Nil
    then show ?thesis by (simp add: split_Nil)
  next
    case (Cons d rest)
    let ?s' = "dropWhile sep rest"
    have sp: "split sep s = takeWhile (\<lambda>c. \<not> sep c) s # split sep ?s'"
      using Cons by (rule split_Cons)
    from Cons have "s \<noteq> []" by auto
    with "1.prems" have "\<not> sep (hd s)" by simp
    with \<open>s \<noteq> []\<close> have p_ne: "takeWhile (\<lambda>c. \<not> sep c) s \<noteq> []" by (cases s) auto
    have "?s' = [] \<or> \<not> sep (hd ?s')" using hd_dropWhile [of sep rest] by blast
    then have "[] \<notin> set (butlast (split sep ?s'))" by (rule "1.IH" [OF Cons])
    then show ?thesis using sp p_ne split_not_Nil [of sep ?s'] by simp
  qed
qed

lemma split_interior_nonempty: "[] \<notin> set (butlast (tl (split sep s)))"
proof (cases "dropWhile (\<lambda>c. \<not> sep c) s")
  case Nil
  then show ?thesis by (simp add: split_Nil)
next
  case (Cons d rest)
  have "dropWhile sep rest = [] \<or> \<not> sep (hd (dropWhile sep rest))"
    using hd_dropWhile [of sep rest] by blast
  then have "[] \<notin> set (butlast (split sep (dropWhile sep rest)))"
    by (rule split_butlast_nonempty)
  then show ?thesis by (simp add: split_Cons [OF Cons])
qed

lemma trim_decomposition:
  "\<exists>l r. s = l @ trim s @ r \<and> (\<forall>c\<in>set l. isWhiteSpace c) \<and> (\<forall>c\<in>set r. isWhiteSpace c)"
proof -
  let ?s1 = "dropWhile isWhiteSpace s"
  let ?l = "takeWhile isWhiteSpace s"
  let ?r = "rev (takeWhile isWhiteSpace (rev ?s1))"
  have "?s1 = trim s @ ?r"
    using rev_dropWhile_takeWhile [of isWhiteSpace ?s1] by (simp add: trim_def)
  moreover have "s = ?l @ ?s1" by simp
  ultimately have "s = ?l @ trim s @ ?r" by simp
  moreover have "\<forall>c\<in>set ?l. isWhiteSpace c" by (auto dest: set_takeWhileD)
  moreover have "\<forall>c\<in>set ?r. isWhiteSpace c" by (auto dest: set_takeWhileD)
  ultimately show ?thesis by blast
qed

lemma trim_trimmed: "trimmed (trim s)"
proof (cases "trim s = []")
  case True
  then show ?thesis by (simp add: trimmed_def)
next
  case False
  let ?s1 = "dropWhile isWhiteSpace s"
  let ?d = "dropWhile isWhiteSpace (rev ?s1)"
  from False have d_ne: "?d \<noteq> []" by (simp add: trim_def)
  then have "\<not> isWhiteSpace (hd ?d)" using hd_dropWhile by blast
  then have l: "\<not> isWhiteSpace (last (trim s))" using d_ne by (simp add: trim_def last_rev)
  have eq: "?s1 = trim s @ rev (takeWhile isWhiteSpace (rev ?s1))"
    using rev_dropWhile_takeWhile [of isWhiteSpace ?s1] by (simp add: trim_def)
  then have "?s1 \<noteq> []" using False by (metis append_is_Nil_conv)
  then have "\<not> isWhiteSpace (hd ?s1)" using hd_dropWhile by blast
  moreover have "hd ?s1 = hd (trim s)" using eq False by (metis hd_append2)
  ultimately show ?thesis using l by (simp add: trimmed_def)
qed

lemma trim_subset: "set (trim s) \<subseteq> set s"
  using trim_decomposition [of s] by (metis Un_iff set_append subsetI)

text \<open>
  Claim C9. \<open>extractSentences\<close> keeps, in their order, the trimmed pieces of the split that
  are longer than 10 characters. The split is the one on runs of delimiters: the text is its
  pieces woven with non-empty runs of \<open>.\<close>, \<open>!\<close>, \<open>?\<close> and newline, no piece holds a
  delimiter, and no piece between two runs is empty. Trimming removes white space at both
  ends and nothing else. Every sentence returned is longer than 10 characters, trimmed and
  free of delimiters, and the empty text has no sentence. The function is total: no input
  makes it fail.
\<close>

theorem extractSentences_segmentation:
  "extractSentences text = filter (\<lambda>s. 10 < length s) (map trim (split isSentenceDelimiter text))
   \<and> (\<exists>runs. length runs + 1 = length (split isSentenceDelimiter text)
         \<and> (\<forall>r\<in>set runs. r \<noteq> [] \<and> (\<forall>c\<in>set r. isSentenceDelimiter c))
         \<and> weave (split isSentenceDelimiter text) runs = text)
   \<and> (\<forall>p\<in>set (split isSentenceDelimiter text). \<forall>c\<in>set p. \<not> isSentenceDelimiter c)
   \<and> [] \<notin> set (butlast (tl (split isSentenceDelimiter text)))
   \<and> (\<forall>p. \<exists>l r. p = l @ trim p @ r \<and> (\<forall>c\<in>set l. isWhiteSpace c) \<and> (\<forall>c\<in>set r. isWhiteSpace c)
         \<and> trimmed (trim p))
   \<and> (\<forall>s\<in>set (extractSentences text). 10 < length s \<and> trimmed s
         \<and> (\<forall>c\<in>set s. \<not> isSentenceDelimiter c))
   \<and> extractSentences [] = []"
proof -
  have a: "extractSentences text
      = filter (\<lambda>s. 10 < length s) (map trim (split isSentenceDelimiter text))"
    by (simp add: extractSentences_def)
  have b: "\<forall>p\<in>set (split isSentenceDelimiter text). \<forall>c\<in>set p. \<not> isSentenceDelimiter c"
    using split_no_separator by blast
  have c: "\<forall>p. \<exists>l r. p = l @ trim p @ r \<and> (\<forall>c\<in>set l. isWhiteSpace c)
      \<and> (\<forall>c\<in>set r. isWhiteSpace c) \<and> trimmed (trim p)"
    using trim_decomposition trim_trimmed by blast
  have d: "\<forall>s\<in>set (extractSentences text). 10 < length s \<and> trimmed s
      \<and> (\<forall>c\<in>set s. \<not> isSentenceDelimiter c)"
  proof
    fix s assume "s \<in> set (extractSentences text)"
    then obtain p where p1: "p \<in> set (split isSentenceDelimiter text)"
      and p2: "s = trim p" and p3: "10 < length s"
      by (auto simp: extractSentences_def)
    have "\<forall>c\<in>set s. \<not> isSentenceDelimiter c"
      using p1 p2 split_no_separator [of p isSentenceDelimiter "text"] trim_subset [of p] by blast
    then show "10 < length s \<and> trimmed s \<and> (\<forall>c\<in>set s. \<not> isSentenceDelimiter c)"
      using p2 p3 trim_trimmed by simp
  qed
  have e: "extractSentences [] = []"
    by (simp add: extractSentences_def split_Nil trim_def)
  show ?thesis using a b c d e split_weave [of isSentenceDelimiter "text"]
      split_interior_nonempty [of isSentenceDelimiter "text"] by blast
qed

theorem extractSentences_segmentation_witness:
  "extractSentences ''Hi. The app is slow today!?  ok'' = [''The app is slow today'']
   \<and> split isSentenceDelimiter ''Hi. The app is slow today!?  ok'' = [''Hi'', '' The app is slow today'', ''  ok'']
   \<and> 10 < length ''The app is slow today'' \<and> trimmed ''The app is slow today''
   \<and> \<not> isSentenceDelimiter (CHR ''T'')"
proof -
  have s: "extractSentences ''Hi. The app is slow today!?  ok'' = [''The app is slow today'']"
    by code_simp
  have p: "split isSentenceDelimiter ''Hi. The app is slow today!?  ok'' = [''Hi'', '' The app is slow today'', ''  ok'']"
    by code_simp
  show ?thesis
    using extractSentences_segmentation [of "''Hi. The app is slow today!?  ok''"] s p by simp
qed

section \<open>Similarity engine\<close>

lemma set_newSet: "set (newSet xs) = set xs"
  by (induction xs) auto

lemma distinct_newSet: "distinct (newSet xs)"
  by (induction xs) auto

lemma length_newSet: "length (newSet xs) = card (set xs)"
  using distinct_card [OF distinct_newSet, of xs] by (simp add: set_newSet)

lemma overlap_card:
  "length (filter (\<lambda>t. t \<in> set (newSet ys)) (newSet xs)) = card (set xs \<inter> set ys)"
proof -
  have "distinct (filter (\<lambda>t. t \<in> set (newSet ys)) (newSet xs))"
    by (simp add: distinct_newSet)
  then have "card (set (filter (\<lambda>t. t \<in> set (newSet ys)) (newSet xs)))
      = length (filter (\<lambda>t. t \<in> set (newSet ys)) (newSet xs))"
    by (rule distinct_card)
  then have "length (filter (\<lambda>t. t \<in> set (newSet ys)) (newSet xs))
      = card (set (filter (\<lambda>t. t \<in> set (newSet ys)) (newSet xs)))"
    by (rule sym)
  also have "set (filter (\<lambda>t. t \<in> set (newSet ys)) (newSet xs)) = set xs \<inter> set ys"
    by (auto simp: set_newSet)
  finally show ?thesis .
qed

lemma semanticSimilarity_card:
  "semanticSimilarity a b =
     (if tokenSet a = {} \<or> tokenSet b = {} then 0
      else of_nat (card (tokenSet a \<inter> tokenSet b))
           / of_nat (min (card (tokenSet a)) (card (tokenSet b))))"
proof -
  have e: "card (tokenSet s) = 0 \<longleftrightarrow> tokenSet s = {}" for s
    by (simp add: tokenSet_def)
  show ?thesis
    unfolding semanticSimilarity_def Let_def length_newSet overlap_card
    using e [of a] e [of b] by (simp add: tokenSet_def)
qed

lemma semanticSimilarity_commute: "semanticSimilarity a b = semanticSimilarity b a"
  by (simp add: semanticSimilarity_card Int_commute min.commute disj_commute)

lemma semanticSimilarity_refl: "tokenSet a \<noteq> {} \<Longrightarrow> semanticSimilarity a a = 1"
proof -
  assume ne: "tokenSet a \<noteq> {}"
  have "finite (tokenSet a)" by (simp add: tokenSet_def)
  with ne have "card (tokenSet a) \<noteq> 0" by simp
  with ne show ?thesis by (simp add: semanticSimilarity_card)
qed

lemma semanticSimilarity_range: "0 \<le> semanticSimilarity a b \<and> semanticSimilarity a b \<le> 1"
proof (cases "tokenSet a = {} \<or> tokenSet b = {}")
  case True
  then show ?thesis by (simp add: semanticSimilarity_card)
next
  case False
  have fa: "finite (tokenSet a)" and fb: "finite (tokenSet b)" by (simp_all add: tokenSet_def)
  let ?m = "min (card (tokenSet a)) (card (tokenSet b))"
  have pos: "0 < ?m" using False fa fb by (simp add: card_gt_0_iff)
  have "card (tokenSet a \<inter> tokenSet b) \<le> card (tokenSet a)"
    using fa by (simp add: card_mono)
  moreover have "card (tokenSet a \<inter> tokenSet b) \<le> card (tokenSet b)"
    using fb by (simp add: card_mono)
  ultimately have le: "card (tokenSet a \<inter> tokenSet b) \<le> ?m" by simp
  have eq: "semanticSimilarity a b = of_nat (card (tokenSet a \<inter> tokenSet b)) / of_nat ?m"
    using False by (simp add: semanticSimilarity_card)
  have "(of_nat (card (tokenSet a \<inter> tokenSet b)) :: rat) \<le> of_nat ?m"
    using le by (simp only: of_nat_le_iff)
  moreover have "(0::rat) < of_nat ?m" using pos by simp
  ultimately have "(of_nat (card (tokenSet a \<inter> tokenSet b)) :: rat) / of_nat ?m \<le> 1"
    by (simp add: divide_le_eq_1)
  moreover have "(0::rat) \<le> of_nat (card (tokenSet a \<inter> tokenSet b)) / of_nat ?m"
    by simp
  ultimately show ?thesis using eq by simp
qed

text \<open>
  Claim C4. \<open>semanticSimilarity\<close> is symmetric. It is 0 when either normalized token set is
  empty, and otherwise the number of common tokens divided by the size of the smaller set.
  A sentence with a non-empty token set has similarity 1 to itself, and every score lies
  between 0 and 1.
\<close>

theorem semanticSimilarity_symmetric_reflexive_bounded:
  "semanticSimilarity a b = semanticSimilarity b a
   \<and> semanticSimilarity a b =
       (if tokenSet a = {} \<or> tokenSet b = {} then 0
        else of_nat (card (tokenSet a \<inter> tokenSet b))
             / of_nat (min (card (tokenSet a)) (card (tokenSet b))))
   \<and> (tokenSet a \<noteq> {} \<longrightarrow> semanticSimilarity a a = 1)
   \<and> 0 \<le> semanticSimilarity a b \<and> semanticSimilarity a b \<le> 1"
  using semanticSimilarity_commute [of a b] semanticSimilarity_card [of a b]
    semanticSimilarity_refl [of a] semanticSimilarity_range [of a b]
  by blast

theorem semanticSimilarity_symmetric_reflexive_bounded_witness:
  "tokenSet ''Menus are poor'' \<noteq> {}
   \<and> semanticSimilarity ''Menus are poor'' ''Menus are poor'' = 1
   \<and> semanticSimilarity ''Menus are poor'' ''Menus remain poor here'' = 2 / 3
   \<and> semanticSimilarity ''Menus remain poor here'' ''Menus are poor'' = 2 / 3"
proof -
  have t: "map normalizeToken (getTokens ''Menus are poor'') = [''menu'', ''are'', ''poor'']"
    by code_simp
  have ne: "tokenSet ''Menus are poor'' \<noteq> {}" by (simp add: tokenSet_def t)
  have v: "semanticSimilarity ''Menus are poor'' ''Menus remain poor here'' = 2 / 3"
    by code_simp
  show ?thesis
    using semanticSimilarity_symmetric_reflexive_bounded
      [of "''Menus are poor''" "''Menus remain poor here''"] ne v
    by simp
qed

section \<open>Clusterer\<close>

lemma absorb_positions:
  "foldl (absorb ss th i) (map ((!) ss) c, A) js =
     (case foldl (absorbAt ss th i) (c, A) js of (c', A') \<Rightarrow> (map ((!) ss) c', A'))"
proof (induction js arbitrary: c A)
  case Nil
  then show ?case by simp
next
  case (Cons j js)
  show ?case
  proof (cases "j \<notin> A \<and> th \<le> semanticSimilarity (ss ! i) (ss ! j)")
    case True
    then have "absorb ss th i (map ((!) ss) c, A) j = (map ((!) ss) (c @ [j]), insert j A)"
      and "absorbAt ss th i (c, A) j = (c @ [j], insert j A)"
      by (simp_all add: absorb_def absorbAt_def)
    then show ?thesis using Cons.IH [of "c @ [j]" "insert j A"] by simp
  next
    case False
    then have "absorb ss th i (map ((!) ss) c, A) j = (map ((!) ss) c, A)"
      and "absorbAt ss th i (c, A) j = (c, A)"
      by (auto simp: absorb_def absorbAt_def)
    then show ?thesis using Cons.IH [of c A] by simp
  qed
qed

lemma seed_positions:
  "foldl (seed ss th) (map (map ((!) ss)) cs, A) ks =
     (case foldl (seedAt ss th) (cs, A) ks of (cs', A') \<Rightarrow> (map (map ((!) ss)) cs', A'))"
proof (induction ks arbitrary: cs A)
  case Nil
  then show ?case by simp
next
  case (Cons k ks)
  show ?case
  proof (cases "k \<in> A")
    case True
    then show ?thesis using Cons.IH [of cs A] by (simp add: seed_def seedAt_def)
  next
    case False
    obtain c' A' where r: "foldl (absorbAt ss th k) ([k], insert k A) [k + 1 ..< length ss] = (c', A')"
      by (cases "foldl (absorbAt ss th k) ([k], insert k A) [k + 1 ..< length ss]")
    have "foldl (absorb ss th k) ([ss ! k], insert k A) [k + 1 ..< length ss]
        = (map ((!) ss) c', A')"
      using absorb_positions [of ss th k "[k]" "insert k A" "[k + 1 ..< length ss]"] r by simp
    then have s1: "seed ss th (map (map ((!) ss)) cs, A) k = (map (map ((!) ss)) (cs @ [c']), A')"
      using False by (simp add: seed_def)
    have s2: "seedAt ss th (cs, A) k = (cs @ [c'], A')"
      using False r by (simp add: seedAt_def)
    show ?thesis using Cons.IH [of "cs @ [c']" A'] s1 s2 by simp
  qed
qed

lemma clusterSentences_positions:
  "clusterSentences ss th = map (map ((!) ss)) (clusterPositions ss th)"
  using seed_positions [of ss th "[]" "{}" "[0 ..< length ss]"]
  by (simp add: clusterSentences_def clusterPositions_def split: prod.splits)

lemma absorbAt_new:
  "foldl (absorbAt ss th i) (c, A) js = (c', A')
     \<Longrightarrow> \<exists>new. c' = c @ new \<and> A' = A \<union> set new \<and> distinct new \<and> set new \<inter> A = {}
           \<and> set new \<subseteq> set js"
proof (induction js arbitrary: c A)
  case Nil
  then show ?case by simp
next
  case (Cons j js)
  show ?case
  proof (cases "absorbAt ss th i (c, A) j = (c, A)")
    case True
    with Cons.prems have "foldl (absorbAt ss th i) (c, A) js = (c', A')" by simp
    from Cons.IH [OF this] show ?thesis by auto
  next
    case False
    then have j: "j \<notin> A" and st: "absorbAt ss th i (c, A) j = (c @ [j], insert j A)"
      by (auto simp: absorbAt_def split: if_splits)
    with Cons.prems have "foldl (absorbAt ss th i) (c @ [j], insert j A) js = (c', A')" by simp
    from Cons.IH [OF this] obtain new where
      n: "c' = (c @ [j]) @ new" "A' = insert j A \<union> set new" "distinct new"
         "set new \<inter> insert j A = {}" "set new \<subseteq> set js" by blast
    have "c' = c @ (j # new)" using n(1) by simp
    moreover have "A' = A \<union> set (j # new)" using n(2) by auto
    moreover have "distinct (j # new)" using n(3,4) by auto
    moreover have "set (j # new) \<inter> A = {}" using n(4) j by auto
    moreover have "set (j # new) \<subseteq> set (j # js)" using n(5) by auto
    ultimately show ?thesis by blast
  qed
qed

lemma seedAt_invariant:
  "foldl (seedAt ss th) (cs, A) ks = (cs', A')
     \<Longrightarrow> set (concat cs) = A \<Longrightarrow> distinct (concat cs) \<Longrightarrow> [] \<notin> set cs
     \<Longrightarrow> set ks \<subseteq> {..< length ss} \<Longrightarrow> A \<subseteq> {..< length ss}
     \<Longrightarrow> set (concat cs') = A' \<and> distinct (concat cs') \<and> [] \<notin> set cs'
         \<and> A \<union> set ks \<subseteq> A' \<and> A' \<subseteq> {..< length ss}"
proof (induction ks arbitrary: cs A)
  case Nil
  then show ?case by simp
next
  case (Cons k ks)
  show ?case
  proof (cases "k \<in> A")
    case True
    then have "seedAt ss th (cs, A) k = (cs, A)" by (simp add: seedAt_def)
    with Cons.prems(1) have "foldl (seedAt ss th) (cs, A) ks = (cs', A')" by simp
    from Cons.IH [OF this Cons.prems(2,3,4) _ Cons.prems(6)] Cons.prems(5) True
    show ?thesis by auto
  next
    case False
    obtain c1 A1 where r: "foldl (absorbAt ss th k) ([k], insert k A) [k + 1 ..< length ss] = (c1, A1)"
      by (cases "foldl (absorbAt ss th k) ([k], insert k A) [k + 1 ..< length ss]")
    from absorbAt_new [OF r] obtain new where
      n: "c1 = [k] @ new" "A1 = insert k A \<union> set new" "distinct new"
         "set new \<inter> insert k A = {}" "set new \<subseteq> set [k + 1 ..< length ss]" by blast
    have st: "seedAt ss th (cs, A) k = (cs @ [c1], A1)"
      using False r by (simp add: seedAt_def)
    with Cons.prems(1) have f: "foldl (seedAt ss th) (cs @ [c1], A1) ks = (cs', A')" by simp
    have k: "k < length ss" using Cons.prems(5) by simp
    have i1: "set (concat (cs @ [c1])) = A1" using n(1,2) Cons.prems(2) by auto
    have i2: "distinct (concat (cs @ [c1]))"
      using n(1,3,4) Cons.prems(2,3) False by auto
    have i3: "[] \<notin> set (cs @ [c1])" using n(1) Cons.prems(4) by simp
    have i4: "set ks \<subseteq> {..< length ss}" using Cons.prems(5) by simp
    have i5: "A1 \<subseteq> {..< length ss}" using n(2,5) k Cons.prems(6) by auto
    from Cons.IH [OF f i1 i2 i3 i4 i5]
    have "set (concat cs') = A' \<and> distinct (concat cs') \<and> [] \<notin> set cs'
        \<and> A1 \<union> set ks \<subseteq> A' \<and> A' \<subseteq> {..< length ss}" .
    then show ?thesis using n(2) by auto
  qed
qed

lemma clusterPositions_partition:
  "distinct (concat (clusterPositions ss th))
   \<and> set (concat (clusterPositions ss th)) = {..< length ss}
   \<and> [] \<notin> set (clusterPositions ss th)"
proof -
  obtain cs' A' where r: "foldl (seedAt ss th) ([], {}) [0 ..< length ss] = (cs', A')"
    by (cases "foldl (seedAt ss th) ([], {}) [0 ..< length ss]")
  have "set (concat cs') = A' \<and> distinct (concat cs') \<and> [] \<notin> set cs'
      \<and> {} \<union> set [0 ..< length ss] \<subseteq> A' \<and> A' \<subseteq> {..< length ss}"
    by (rule seedAt_invariant [OF r]) auto
  then have "set (concat cs') = {..< length ss} \<and> distinct (concat cs') \<and> [] \<notin> set cs'"
    by auto
  then show ?thesis by (simp add: clusterPositions_def r)
qed

lemma clusterSentences_nonempty: "[] \<notin> set (clusterSentences ss th)"
  using clusterPositions_partition [of ss th] by (auto simp: clusterSentences_positions)

lemma clusterSentences_mset: "mset (concat (clusterSentences ss th)) = mset ss"
proof -
  let ?P = "concat (clusterPositions ss th)"
  have "distinct ?P" and "set ?P = set [0 ..< length ss]"
    using clusterPositions_partition [of ss th] by auto
  then have m: "mset ?P = mset [0 ..< length ss]"
    using set_eq_iff_mset_eq_distinct [of ?P "[0 ..< length ss]"] distinct_upt by blast
  have "concat (clusterSentences ss th) = map ((!) ss) ?P"
    by (simp add: clusterSentences_positions map_concat)
  then have "mset (concat (clusterSentences ss th)) = image_mset ((!) ss) (mset ?P)" by simp
  also have "\<dots> = mset (map ((!) ss) [0 ..< length ss])" by (simp add: m)
  also have "\<dots> = mset ss" by (simp add: map_nth)
  finally show ?thesis .
qed

text \<open>
  Claim C3. For every list of sentences and every threshold, \<open>clusterSentences\<close> returns a
  partition of its input: the clusters are the sentences at the positions of
  \<open>clusterPositions\<close>, every position below the length of the input is in the clusters and
  no position is there twice, no cluster is empty, and all the clusters together hold the
  input sentences, each as often as the input has it.
\<close>

theorem clusterSentences_partition:
  "clusterSentences sentences threshold
     = map (map ((!) sentences)) (clusterPositions sentences threshold)
   \<and> distinct (concat (clusterPositions sentences threshold))
   \<and> set (concat (clusterPositions sentences threshold)) = {..< length sentences}
   \<and> [] \<notin> set (clusterSentences sentences threshold)
   \<and> mset (concat (clusterSentences sentences threshold)) = mset sentences"
  using clusterSentences_positions [of sentences threshold]
    clusterPositions_partition [of sentences threshold]
    clusterSentences_nonempty [of sentences threshold]
    clusterSentences_mset [of sentences threshold]
  by blast

section \<open>The pipeline never fails and fills its lists\<close>

lemma mapE_total:
  "(\<And>x. x \<in> set xs \<Longrightarrow> \<exists>y. f x = Inr y) \<Longrightarrow> \<exists>ys. mapE f xs = Inr ys \<and> length ys = length xs"
proof (induction xs)
  case Nil
  then show ?case by simp
next
  case (Cons x xs)
  from Cons.prems obtain y where y: "f x = Inr y" by auto
  from Cons.IH Cons.prems obtain ys where ys: "mapE f xs = Inr ys" "length ys = length xs"
    by auto
  show ?case using y ys by simp
qed

lemma inferredPainPoint_total: "c \<noteq> [] \<Longrightarrow> \<exists>p. inferredPainPoint c = Inr p"
  by (cases c) (simp_all add: inferredPainPoint_def Let_def)

lemma clusterTheme_total: "c \<noteq> [] \<Longrightarrow> \<exists>t. clusterTheme c = Inr t"
  by (cases c) (simp_all add: clusterTheme_def Let_def)

lemma painPoints_total: "\<exists>pains. painPoints sentences clusters = Inr pains"
proof -
  let ?neg = "filter (\<lambda>s. inferSentiment s = negative) sentences"
  have "\<exists>ys. mapE inferredPainPoint (take 3 (clusterSentences ?neg (1 / 4))) = Inr ys
      \<and> length ys = length (take 3 (clusterSentences ?neg (1 / 4)))"
  proof (rule mapE_total)
    fix c assume "c \<in> set (take 3 (clusterSentences ?neg (1 / 4)))"
    then have "c \<in> set (clusterSentences ?neg (1 / 4))" by (rule in_set_takeD)
    then have "c \<noteq> []" using clusterSentences_nonempty [of ?neg "1 / 4"] by auto
    then show "\<exists>y. inferredPainPoint c = Inr y" by (rule inferredPainPoint_total)
  qed
  then obtain ys where "mapE inferredPainPoint (take 3 (clusterSentences ?neg (1 / 4))) = Inr ys"
    by blast
  then show ?thesis by (simp add: painPoints_def Let_def)
qed

lemma explicitThemes_names:
  "set (map theme (explicitThemes lowerText))
     \<subseteq> {''Power User Optimization'', ''Onboarding Friction'', ''Collaboration Needs'',
         ''Customization Desire''}"
  by (auto simp: explicitThemes_def)

lemma find_fallbacks:
  "find (\<lambda>f. theme f \<notin> ex) fallbacks =
     (if ''Efficiency Seeking'' \<notin> ex then Some (fallbacks ! 0)
      else if ''Feature Exploration'' \<notin> ex then Some (fallbacks ! 1) else None)"
  by (simp add: fallbacks_def)

lemma finalFallback_length:
  "2 \<le> length ts + card ({''Efficiency Seeking'', ''Feature Exploration''} - ex)
     \<Longrightarrow> 2 \<le> length (fst (finalFallback ts ex))"
proof (induction ts ex rule: finalFallback.induct)
  case (1 ts ex)
  let ?F = "{''Efficiency Seeking'', ''Feature Exploration''} :: string set"
  show ?case
  proof (cases "length ts < 2")
    case False
    then show ?thesis by (simp add: finalFallback.simps [of ts ex])
  next
    case True
    with "1.prems" have "card (?F - ex) \<noteq> 0" by linarith
    then have "?F - ex \<noteq> {}" by auto
    then have nx: "''Efficiency Seeking'' \<notin> ex \<or> ''Feature Exploration'' \<notin> ex" by auto
    then obtain fb where fb: "find (\<lambda>f. theme f \<notin> ex) fallbacks = Some fb"
      by (cases "''Efficiency Seeking'' \<in> ex") (auto simp: find_fallbacks)
    then have th: "theme fb \<in> ?F" "theme fb \<notin> ex"
      by (auto simp: find_fallbacks fallbacks_def split: if_splits)
    have "?F - ex = insert (theme fb) (?F - insert (theme fb) ex)" using th by auto
    moreover have "theme fb \<notin> ?F - insert (theme fb) ex" by simp
    moreover have "finite (?F - insert (theme fb) ex)" by simp
    ultimately have "card (?F - ex) = Suc (card (?F - insert (theme fb) ex))"
      by (metis card_insert_disjoint)
    with "1.prems" have "2 \<le> length (ts @ [fb]) + card (?F - insert (theme fb) ex)" by simp
    from "1.IH" [OF True fb this]
    show ?thesis using True fb by (simp add: finalFallback.simps [of ts ex])
  qed
qed

lemma behavioralThemes_total:
  "\<exists>themes table'. behavioralThemes table lowerText sentences clusters = Inr (themes, table')
     \<and> 2 \<le> length themes"
proof -
  let ?ex = "set (map theme (explicitThemes lowerText))"
  obtain ts tb where i: "implicitThemes ?ex sentences (explicitThemes lowerText) table = (ts, tb)"
    by (cases "implicitThemes ?ex sentences (explicitThemes lowerText) table")
  show ?thesis
  proof (cases "length ts < 2")
    case False
    then show ?thesis using i by (simp add: behavioralThemes_def Let_def)
  next
    case True
    let ?top = "take (2 - length ts)
        (sort_key (\<lambda>c. - int (length c)) (filter (\<lambda>c. length c \<ge> 2) clusters))"
    have "\<exists>ys. mapE clusterTheme ?top = Inr ys \<and> length ys = length ?top"
    proof (rule mapE_total)
      fix c assume "c \<in> set ?top"
      then have "c \<in> set (sort_key (\<lambda>c. - int (length c)) (filter (\<lambda>c. length c \<ge> 2) clusters))"
        by (rule in_set_takeD)
      then have "2 \<le> length c" by simp
      then have "c \<noteq> []" by auto
      then show "\<exists>y. clusterTheme c = Inr y" by (rule clusterTheme_total)
    qed
    then obtain rec where r: "mapE clusterTheme ?top = Inr rec" by blast
    have "{''Efficiency Seeking'', ''Feature Exploration''} - ?ex
        = {''Efficiency Seeking'', ''Feature Exploration''}"
      using explicitThemes_names [of lowerText] by auto
    then have "card ({''Efficiency Seeking'', ''Feature Exploration''} - ?ex) = 2" by simp
    then have "2 \<le> length (fst (finalFallback (ts @ rec) ?ex))"
      by (intro finalFallback_length) simp
    then show ?thesis using i True r by (simp add: behavioralThemes_def Let_def)
  qed
qed

lemma defaults_fill: "length recs < 2 \<Longrightarrow> 2 \<le> length (foldl defaultRecommendation recs defaults)"
proof (cases recs)
  case Nil
  then show ?thesis by (simp add: defaults_def defaultRecommendation_def)
next
  case (Cons r rs)
  assume "length recs < 2"
  with Cons have "rs = []" by simp
  with Cons show ?thesis by (simp add: defaults_def defaultRecommendation_def)
qed

lemma synthesizeRecommendations_length:
  "2 \<le> length (synthesizeRecommendations pains emotions themes)"
  by (simp add: synthesizeRecommendations_def Let_def defaults_fill)

lemma synthesizePersonas_length:
  "length (synthesizePersonas sentences pains positiveCount negativeCount) = 2"
  by (simp add: synthesizePersonas_def Let_def)

lemma analyzeUserFeedback_stages:
  "\<exists>pains themes table'.
     painPoints (extractSentences rawText) (clusterSentences (extractSentences rawText) (7 / 20))
       = Inr pains
     \<and> behavioralThemes table (toLowerCase rawText) (extractSentences rawText)
         (clusterSentences (extractSentences rawText) (7 / 20)) = Inr (themes, table')
     \<and> 2 \<le> length themes
     \<and> (\<exists>r. analyzeUserFeedback table rawText = Inr (r, table')
          \<and> pain_points r = pains
          \<and> emotional_patterns r = emotionalPatterns (extractSentences rawText)
          \<and> behavioral_themes r = themes
          \<and> cognitive_biases r
              = cognitiveBiases (toLowerCase rawText) (extractSentences rawText)
          \<and> length (personas r) = 2
          \<and> recommendations r
              = synthesizeRecommendations pains (emotionalPatterns (extractSentences rawText))
                  themes)"
proof -
  let ?S = "extractSentences rawText"
  let ?C = "clusterSentences ?S (7 / 20)"
  obtain pains where p: "painPoints ?S ?C = Inr pains"
    using painPoints_total by blast
  obtain themes table' where t: "behavioralThemes table (toLowerCase rawText) ?S ?C
      = Inr (themes, table')" and l: "2 \<le> length themes"
    using behavioralThemes_total by blast
  show ?thesis using p t l
    by (simp add: analyzeUserFeedback_def Let_def synthesizePersonas_length)
qed

text \<open>
  Claim C1. On every module state and every input text, the empty text too,
  \<open>analyzeUserFeedback\<close> returns a report and throws nothing; the report has at least two
  behavioral themes, at least two recommendations and exactly two personas.
\<close>

theorem analyzeUserFeedback_minimum_counts:
  "\<exists>r table'. analyzeUserFeedback table rawText = Inr (r, table')
     \<and> 2 \<le> length (behavioral_themes r)
     \<and> 2 \<le> length (recommendations r)
     \<and> length (personas r) = 2"
  using analyzeUserFeedback_stages [of rawText table] synthesizeRecommendations_length
  by metis

section \<open>Determinism\<close>

lemma RegExp_test_stateless: "\<not> global rx \<Longrightarrow> snd (RegExp_test rx s) = rx"
  by (simp add: RegExp_test_def RegExp_exec_def Let_def split: option.splits)

lemma patternsSome_stateless:
  "list_all (\<lambda>rx. \<not> global rx) rxs \<Longrightarrow> snd (patternsSome rxs s) = rxs"
proof (induction rxs)
  case Nil
  then show ?case by simp
next
  case (Cons rx rxs)
  then have a: "snd (RegExp_test rx s) = rx" and b: "snd (patternsSome rxs s) = rxs"
    by (simp_all add: RegExp_test_stateless)
  obtain m rx' where t: "RegExp_test rx s = (m, rx')" by (cases "RegExp_test rx s")
  obtain m' rxs' where u: "patternsSome rxs s = (m', rxs')" by (cases "patternsSome rxs s")
  show ?case using a b t u by (cases m) simp_all
qed

lemma matchCount_stateless:
  "list_all (\<lambda>rx. \<not> global rx) rxs \<Longrightarrow> snd (matchCount rxs ss) = rxs"
proof (induction ss)
  case Nil
  then show ?case by simp
next
  case (Cons s ss)
  obtain m rxs' where u: "patternsSome rxs s = (m, rxs')" by (cases "patternsSome rxs s")
  with patternsSome_stateless [OF Cons.prems, of s] have r: "rxs' = rxs" by simp
  obtain n rxs'' where v: "matchCount rxs ss = (n, rxs'')" by (cases "matchCount rxs ss")
  with Cons have "rxs'' = rxs" by simp
  then show ?case using u r v by simp
qed

lemma implicitThemes_stateless:
  "stateless table \<Longrightarrow> snd (implicitThemes ex ss ts table) = table"
proof (induction table arbitrary: ts)
  case Nil
  then show ?case by simp
next
  case (Cons p ps)
  obtain rxs th d u where p: "p = (rxs, th, d, u)" by (cases p)
  from Cons.prems p have g: "list_all (\<lambda>rx. \<not> global rx) rxs" and rest: "stateless ps"
    by (simp_all add: stateless_def)
  have ih: "snd (implicitThemes ex ss ts' ps) = ps" for ts'
    using Cons.IH [OF rest] .
  obtain n rxs' where m: "matchCount rxs ss = (n, rxs')" by (cases "matchCount rxs ss")
  with matchCount_stateless [OF g, of ss] have r: "rxs' = rxs" by simp
  show ?case using p m r ih by (simp split: prod.splits) (metis snd_conv)
qed

lemma behavioralThemes_stateless:
  "stateless table \<Longrightarrow> behavioralThemes table lowerText sentences clusters = Inr (themes, table')
     \<Longrightarrow> table' = table"
  using implicitThemes_stateless
    [of table "set (map theme (explicitThemes lowerText))" sentences "explicitThemes lowerText"]
  by (auto simp: behavioralThemes_def Let_def split: prod.splits if_splits sum.splits)

lemma analyzeUserFeedback_stateless:
  "stateless table \<Longrightarrow> analyzeUserFeedback table rawText = Inr (r, table') \<Longrightarrow> table' = table"
  by (auto simp: analyzeUserFeedback_def Let_def split: sum.splits prod.splits
      dest: behavioralThemes_stateless)

lemma stateless_IMPLICIT_THEME_PATTERNS: "stateless IMPLICIT_THEME_PATTERNS"
  by (simp add: stateless_def IMPLICIT_THEME_PATTERNS_def regExp_def global_def)

lemma invocations_stateless:
  "stateless table \<Longrightarrow>
     invocations table rawTexts = map (\<lambda>t. map_sum id fst (analyzeUserFeedback table t)) rawTexts"
proof (induction rawTexts)
  case Nil
  then show ?case by simp
next
  case (Cons t ts)
  show ?case
  proof (cases "analyzeUserFeedback table t")
    case (Inl e)
    then show ?thesis using Cons by simp
  next
    case (Inr a)
    obtain r table' where a: "a = (r, table')" by (cases a)
    with Inr Cons.prems have "table' = table" by (auto dest: analyzeUserFeedback_stateless)
    then show ?thesis using Inr a Cons by simp
  qed
qed

text \<open>
  Claim C2. The report is a function of the input text alone. The only state that outlives
  an invocation is \<open>lastIndex\<close> of the module's regular expression objects, and no
  invocation changes it, since none has the \<open>g\<close> flag. So in any sequence of invocations
  on the loaded module, each returns what the freshly loaded module returns on the same
  text, and two invocations on identical texts return identical reports. The model has no
  clock, no random source and no input but the text.
\<close>

theorem analyzeUserFeedback_deterministic:
  "i < length rawTexts \<Longrightarrow> j < length rawTexts \<Longrightarrow> rawTexts ! i = rawTexts ! j
     \<Longrightarrow> invocations IMPLICIT_THEME_PATTERNS rawTexts ! i
           = map_sum id fst (analyzeUserFeedback IMPLICIT_THEME_PATTERNS (rawTexts ! i))
         \<and> invocations IMPLICIT_THEME_PATTERNS rawTexts ! i
           = invocations IMPLICIT_THEME_PATTERNS rawTexts ! j"
proof -
  assume i: "i < length rawTexts" and j: "j < length rawTexts"
    and same: "rawTexts ! i = rawTexts ! j"
  have m: "invocations IMPLICIT_THEME_PATTERNS rawTexts
      = map (\<lambda>t. map_sum id fst (analyzeUserFeedback IMPLICIT_THEME_PATTERNS t)) rawTexts"
    using stateless_IMPLICIT_THEME_PATTERNS by (rule invocations_stateless)
  have a: "invocations IMPLICIT_THEME_PATTERNS rawTexts ! i
      = map_sum id fst (analyzeUserFeedback IMPLICIT_THEME_PATTERNS (rawTexts ! i))"
    using i by (simp add: m)
  have b: "invocations IMPLICIT_THEME_PATTERNS rawTexts ! j
      = map_sum id fst (analyzeUserFeedback IMPLICIT_THEME_PATTERNS (rawTexts ! j))"
    using j by (simp add: m)
  show ?thesis using a b same by simp
qed

theorem analyzeUserFeedback_deterministic_witness:
  "(0::nat) < length [''always!'', ''Really fast'', ''always!'']
   \<and> (2::nat) < length [''always!'', ''Really fast'', ''always!'']
   \<and> [''always!'', ''Really fast'', ''always!''] ! 0 = [''always!'', ''Really fast'', ''always!''] ! 2
   \<and> invocations IMPLICIT_THEME_PATTERNS [''always!'', ''Really fast'', ''always!''] ! 0
       = invocations IMPLICIT_THEME_PATTERNS [''always!'', ''Really fast'', ''always!''] ! 2"
proof -
  let ?texts = "[''always!'', ''Really fast'', ''always!'']"
  have a: "(0::nat) < length ?texts" and b: "(2::nat) < length ?texts"
    and c: "?texts ! 0 = ?texts ! 2" by simp_all
  from analyzeUserFeedback_deterministic [OF a b c] show ?thesis using a b c by blast
qed

section \<open>Cognitive biases\<close>

lemma set_map_filter: "set (List.map_filter g xs) = {y. \<exists>x\<in>set xs. g x = Some y}"
  by (induction xs) (auto simp: List.map_filter_simps split: option.splits)

lemma cognitiveBias_Some:
  "cognitiveBias lowerText (keywords, b, i) = Some f
     \<Longrightarrow> bias f = b \<and> (\<exists>k\<in>set keywords. includesStr lowerText k)"
  by (auto simp: cognitiveBias_def Let_def filter_empty_conv split: if_splits)

lemma cognitiveBias_matches:
  "\<exists>k\<in>set keywords. includesStr lowerText k
     \<Longrightarrow> \<exists>f. cognitiveBias lowerText (keywords, b, i) = Some f \<and> bias f = b"
  by (auto simp: cognitiveBias_def Let_def filter_empty_conv)

lemma explicit_bias_names:
  assumes "(keywords, b, i) \<in> set table" and "distinct (map (\<lambda>e. fst (snd e)) table)"
  shows "(b \<in> set (map bias (List.map_filter (cognitiveBias lowerText) table)))
     = (\<exists>k\<in>set keywords. includesStr lowerText k)"
proof
  assume "b \<in> set (map bias (List.map_filter (cognitiveBias lowerText) table))"
  then obtain f e where f: "bias f = b" "e \<in> set table" "cognitiveBias lowerText e = Some f"
    by (auto simp: set_map_filter)
  obtain kw' b' i' where e: "e = (kw', b', i')" by (cases e)
  from cognitiveBias_Some [of lowerText kw' b' i' f] f(3) e
  have m: "bias f = b'" "\<exists>k\<in>set kw'. includesStr lowerText k" by auto
  with f(1) have "b' = b" by simp
  with f(2) e assms have "e = (keywords, b, i)"
    by (metis (mono_tags, lifting) distinct_map fst_conv inj_onD snd_conv)
  with e m(2) show "\<exists>k\<in>set keywords. includesStr lowerText k" by simp
next
  assume "\<exists>k\<in>set keywords. includesStr lowerText k"
  from cognitiveBias_matches [OF this, of b i] obtain f where
    "cognitiveBias lowerText (keywords, b, i) = Some f" "bias f = b" by blast
  with assms(1) show "b \<in> set (map bias (List.map_filter (cognitiveBias lowerText) table))"
    by (force simp: set_map_filter)
qed

lemma BIAS_PATTERNS_names:
  "distinct (map (\<lambda>e. fst (snd e)) BIAS_PATTERNS)
   \<and> ''Absolutist Thinking'' \<notin> set (map (\<lambda>e. fst (snd e)) BIAS_PATTERNS)
   \<and> ''Comparative Framing'' \<notin> set (map (\<lambda>e. fst (snd e)) BIAS_PATTERNS)"
  by (simp add: BIAS_PATTERNS_def)

lemma cognitiveBiases_names:
  assumes "(keywords, b, i) \<in> set BIAS_PATTERNS"
  shows "(b \<in> set (map bias (cognitiveBiases lowerText sentences)))
     = (\<exists>k\<in>set keywords. includesStr lowerText k)"
proof (cases "List.map_filter (cognitiveBias lowerText) BIAS_PATTERNS = []")
  case False
  then have "cognitiveBiases lowerText sentences
      = List.map_filter (cognitiveBias lowerText) BIAS_PATTERNS"
    by (simp add: cognitiveBiases_def Let_def)
  then show ?thesis using explicit_bias_names [OF assms] BIAS_PATTERNS_names by simp
next
  case True
  have "b \<in> set (map (\<lambda>e. fst (snd e)) BIAS_PATTERNS)" using assms by force
  then have "b \<noteq> ''Absolutist Thinking''" "b \<noteq> ''Comparative Framing''"
    using BIAS_PATTERNS_names by blast+
  then have "b \<notin> set (map bias (cognitiveBiases lowerText sentences))"
    using True by (auto simp: cognitiveBiases_def Let_def)
  moreover have "\<not> (\<exists>k\<in>set keywords. includesStr lowerText k)"
    using explicit_bias_names [OF assms, of lowerText] BIAS_PATTERNS_names True by simp
  ultimately show ?thesis by simp
qed

lemma always_sentences: "extractSentences ''always!'' = []"
  by code_simp

lemma always_lower: "toLowerCase ''always!'' = ''always!''"
  by code_simp

lemma always_biases: "map bias (cognitiveBiases ''always!'' []) = [''Frequency Illusion'']"
  by code_simp

lemma no_sentences_pains: "painPoints [] clusters = Inr []"
  by (simp add: painPoints_def explicitPainPoints_def painPoint_def PAIN_KEYWORDS_def Let_def)

lemma no_sentences_emotions: "emotionalPatterns [] = []"
  by (simp add: emotionalPatterns_def emotionalPattern_def EMOTION_KEYWORDS_def Let_def)

text \<open>
  Claim C10. The explicit bias stage reads the lower-cased raw text and not the sentences:
  the report names the bias of a table entry exactly when one of the entry's keywords occurs
  in the lower-cased raw text, and when any entry matches, the findings are those the raw
  text alone gives. The text \<open>always!\<close> has no sentence, and its report has a cognitive
  bias all the same, while its pain points and emotional patterns are empty.
\<close>

theorem cognitive_biases_from_raw_text:
  "(\<exists>r table'. analyzeUserFeedback table rawText = Inr (r, table')
      \<and> (\<forall>(keywords, b_bias, b_impact) \<in> set BIAS_PATTERNS.
            (b_bias \<in> set (map bias (cognitive_biases r)))
            = (\<exists>k\<in>set keywords. includesStr (toLowerCase rawText) k))
      \<and> (List.map_filter (cognitiveBias (toLowerCase rawText)) BIAS_PATTERNS \<noteq> []
           \<longrightarrow> cognitive_biases r
               = List.map_filter (cognitiveBias (toLowerCase rawText)) BIAS_PATTERNS))
   \<and> (\<exists>r table'. analyzeUserFeedback table ''always!'' = Inr (r, table')
        \<and> extractSentences ''always!'' = [] \<and> cognitive_biases r \<noteq> []
        \<and> pain_points r = [] \<and> emotional_patterns r = [])"
proof
  from analyzeUserFeedback_stages [of rawText table] obtain r table' where
    r: "analyzeUserFeedback table rawText = Inr (r, table')"
       "cognitive_biases r = cognitiveBiases (toLowerCase rawText) (extractSentences rawText)"
    by blast
  have "\<forall>(keywords, b_bias, b_impact) \<in> set BIAS_PATTERNS.
      (b_bias \<in> set (map bias (cognitive_biases r)))
      = (\<exists>k\<in>set keywords. includesStr (toLowerCase rawText) k)"
  proof (clarify)
    fix kw b i assume "(kw, b, i) \<in> set BIAS_PATTERNS"
    from cognitiveBiases_names [OF this, of "toLowerCase rawText" "extractSentences rawText"]
    show "(b \<in> set (map bias (cognitive_biases r)))
        = (\<exists>k\<in>set kw. includesStr (toLowerCase rawText) k)"
      using r(2) by simp
  qed
  moreover have "List.map_filter (cognitiveBias (toLowerCase rawText)) BIAS_PATTERNS \<noteq> []
      \<longrightarrow> cognitive_biases r
          = List.map_filter (cognitiveBias (toLowerCase rawText)) BIAS_PATTERNS"
    using r(2) by (simp add: cognitiveBiases_def Let_def)
  ultimately show "\<exists>r table'. analyzeUserFeedback table rawText = Inr (r, table')
      \<and> (\<forall>(keywords, b_bias, b_impact) \<in> set BIAS_PATTERNS.
            (b_bias \<in> set (map bias (cognitive_biases r)))
            = (\<exists>k\<in>set keywords. includesStr (toLowerCase rawText) k))
      \<and> (List.map_filter (cognitiveBias (toLowerCase rawText)) BIAS_PATTERNS \<noteq> []
           \<longrightarrow> cognitive_biases r
               = List.map_filter (cognitiveBias (toLowerCase rawText)) BIAS_PATTERNS)"
    using r(1) by blast
next
  from analyzeUserFeedback_stages [of "''always!''" table] obtain pains r table' where
    r: "painPoints (extractSentences ''always!'')
          (clusterSentences (extractSentences ''always!'') (7 / 20)) = Inr pains"
       "analyzeUserFeedback table ''always!'' = Inr (r, table')"
       "pain_points r = pains"
       "emotional_patterns r = emotionalPatterns (extractSentences ''always!'')"
       "cognitive_biases r
          = cognitiveBiases (toLowerCase ''always!'') (extractSentences ''always!'')"
    by blast
  from r(1) have "pains = []" by (simp add: always_sentences no_sentences_pains)
  moreover have "map bias (cognitive_biases r) \<noteq> []"
    using r(5) by (simp add: always_sentences always_lower always_biases)
  ultimately show "\<exists>r table'. analyzeUserFeedback table ''always!'' = Inr (r, table')
      \<and> extractSentences ''always!'' = [] \<and> cognitive_biases r \<noteq> []
      \<and> pain_points r = [] \<and> emotional_patterns r = []"
    using r(2,3,4) always_sentences no_sentences_emotions by auto
qed

theorem cognitive_biases_from_raw_text_witness:
  "([''always'', ''never'', ''every time'', ''constantly'', ''without fail''],
      ''Frequency Illusion'', ''Users may overstate issue frequency'') \<in> set BIAS_PATTERNS
   \<and> (\<exists>r table'. analyzeUserFeedback IMPLICIT_THEME_PATTERNS ''always!'' = Inr (r, table')
        \<and> ''Frequency Illusion'' \<in> set (map bias (cognitive_biases r))
        \<and> includesStr (toLowerCase ''always!'') ''always'')"
proof -
  have e: "([''always'', ''never'', ''every time'', ''constantly'', ''without fail''],
      ''Frequency Illusion'', ''Users may overstate issue frequency'') \<in> set BIAS_PATTERNS"
    by (simp add: BIAS_PATTERNS_def)
  have i: "includesStr (toLowerCase ''always!'') ''always''"
    by (simp add: always_lower)
  from cognitive_biases_from_raw_text [of IMPLICIT_THEME_PATTERNS "''always!''"]
  obtain r table' where r: "analyzeUserFeedback IMPLICIT_THEME_PATTERNS ''always!'' = Inr (r, table')"
    "\<forall>(keywords, b_bias, b_impact) \<in> set BIAS_PATTERNS.
       (b_bias \<in> set (map bias (cognitive_biases r)))
       = (\<exists>k\<in>set keywords. includesStr (toLowerCase ''always!'') k)"
    by blast
  from r(2) e have "(''Frequency Illusion'' \<in> set (map bias (cognitive_biases r)))
      = (\<exists>k\<in>set [''always'', ''never'', ''every time'', ''constantly'', ''without fail''].
           includesStr (toLowerCase ''always!'') k)"
    by fast
  with i have "''Frequency Illusion'' \<in> set (map bias (cognitive_biases r))" by simp
  with r(1) e i show ?thesis by blast
qed

section \<open>Behavioral themes: the final fallback\<close>

lemma fast_themes:
  "map_sum id (map theme \<circ> fst)
     (behavioralThemes IMPLICIT_THEME_PATTERNS (toLowerCase ''It is really fast'')
        (extractSentences ''It is really fast'')
        (clusterSentences (extractSentences ''It is really fast'') (7 / 20)))
   = Inr [''Efficiency Seeking'', ''Efficiency Seeking'']"
  by code_simp

text \<open>
  Claim C8 says that the final fallback skips every theme label already in
  \<open>behavioral_themes\<close>, so that no label occurs twice. The loop tests \<open>existingThemes\<close>,
  the set taken from the explicit themes before the implicit detectors ran, and they push
  without adding to it. On the text \<open>It is really fast\<close> the implicit detector pushes
  \<open>Efficiency Seeking\<close>, no cluster has two sentences, and the fallback pushes
  \<open>Efficiency Seeking\<close> again: the code at the failing input.
\<close>

theorem fallback_repeats_implicit_theme:
  "\<exists>r table'. analyzeUserFeedback IMPLICIT_THEME_PATTERNS ''It is really fast'' = Inr (r, table')
     \<and> map theme (behavioral_themes r) = [''Efficiency Seeking'', ''Efficiency Seeking'']"
proof -
  from analyzeUserFeedback_stages [of "''It is really fast''" IMPLICIT_THEME_PATTERNS]
  obtain themes r table' where
    t: "behavioralThemes IMPLICIT_THEME_PATTERNS (toLowerCase ''It is really fast'')
          (extractSentences ''It is really fast'')
          (clusterSentences (extractSentences ''It is really fast'') (7 / 20))
        = Inr (themes, table')"
    and r: "analyzeUserFeedback IMPLICIT_THEME_PATTERNS ''It is really fast'' = Inr (r, table')"
      "behavioral_themes r = themes"
    by blast
  from fast_themes t have "map theme themes = [''Efficiency Seeking'', ''Efficiency Seeking'']"
    by simp
  with r have "analyzeUserFeedback IMPLICIT_THEME_PATTERNS ''It is really fast'' = Inr (r, table')
      \<and> map theme (behavioral_themes r) = [''Efficiency Seeking'', ''Efficiency Seeking'']"
    by simp
  then show ?thesis by (intro exI)
qed

section \<open>Pain points: order of the findings\<close>

lemma sevOrder_inj: "sevOrder a = sevOrder b \<longleftrightarrow> a = b"
  by (cases a; cases b) (simp_all add: sevOrder_def)

lemma explicitPainPoints_sorted:
  "sorted_wrt (\<lambda>a b. sevOrder (severity b) \<le> sevOrder (severity a))
     (explicitPainPoints sentences clusters)"
proof -
  have "sorted (map (\<lambda>a. - sevOrder (severity a)) (explicitPainPoints sentences clusters))"
    by (simp add: explicitPainPoints_def)
  then show ?thesis by (simp add: sorted_map)
qed

lemma explicitPainPoints_stable:
  "filter (\<lambda>p. severity p = t) (explicitPainPoints sentences clusters)
     = filter (\<lambda>p. severity p = t) (List.map_filter (painPoint sentences clusters) PAIN_KEYWORDS)"
proof -
  have "filter (\<lambda>p. - sevOrder (severity p) = - sevOrder t) (explicitPainPoints sentences clusters)
      = filter (\<lambda>p. - sevOrder (severity p) = - sevOrder t)
          (List.map_filter (painPoint sentences clusters) PAIN_KEYWORDS)"
    unfolding explicitPainPoints_def by (rule sort_key_stable)
  then show ?thesis by (simp add: sevOrder_inj)
qed

lemma painPoints_cases:
  "painPoints sentences clusters = Inr pains \<Longrightarrow>
     (List.map_filter (painPoint sentences clusters) PAIN_KEYWORDS \<noteq> []
        \<longrightarrow> pains = explicitPainPoints sentences clusters)
     \<and> (List.map_filter (painPoint sentences clusters) PAIN_KEYWORDS = []
        \<longrightarrow> mapE inferredPainPoint
              (take 3 (clusterSentences (filter (\<lambda>s. inferSentiment s = negative) sentences)
                         (1 / 4)))
            = Inr pains)"
proof -
  assume a: "painPoints sentences clusters = Inr pains"
  have e: "explicitPainPoints sentences clusters = []
      \<longleftrightarrow> List.map_filter (painPoint sentences clusters) PAIN_KEYWORDS = []"
  proof -
    have "length (explicitPainPoints sentences clusters)
        = length (List.map_filter (painPoint sentences clusters) PAIN_KEYWORDS)"
      by (simp add: explicitPainPoints_def)
    then show ?thesis by (metis length_0_conv)
  qed
  show ?thesis
  proof (cases "List.map_filter (painPoint sentences clusters) PAIN_KEYWORDS = []")
    case False
    with a e show ?thesis by (simp add: painPoints_def Let_def)
  next
    case True
    with e have x: "explicitPainPoints sentences clusters = []" by simp
    show ?thesis
    proof (cases "filter (\<lambda>s. inferSentiment s = negative) sentences = []")
      case True
      with a x have "pains = []" by (simp add: painPoints_def Let_def)
      with True \<open>List.map_filter (painPoint sentences clusters) PAIN_KEYWORDS = []\<close>
      show ?thesis by (simp add: clusterSentences_def)
    next
      case False
      with a x \<open>List.map_filter (painPoint sentences clusters) PAIN_KEYWORDS = []\<close>
      show ?thesis by (simp add: painPoints_def Let_def split: sum.splits)
    qed
  qed
qed

text \<open>
  What the sort reaches. When the explicit stage has a finding, the pain points of the
  report are the explicit findings sorted by falling severity, findings of equal severity in
  the order of the table. When it has none, the pain points are the findings inferred from
  the first three clusters of the negative sentences, in the order of the clusters.
\<close>

lemma pain_points_sorted_when_explicit:
  "\<exists>r table'. analyzeUserFeedback table rawText = Inr (r, table')
     \<and> (List.map_filter (painPoint (extractSentences rawText)
              (clusterSentences (extractSentences rawText) (7 / 20))) PAIN_KEYWORDS \<noteq> []
          \<longrightarrow> sorted_wrt (\<lambda>a b. sevOrder (severity b) \<le> sevOrder (severity a)) (pain_points r)
              \<and> (\<forall>t. filter (\<lambda>p. severity p = t) (pain_points r)
                     = filter (\<lambda>p. severity p = t)
                         (List.map_filter (painPoint (extractSentences rawText)
                            (clusterSentences (extractSentences rawText) (7 / 20)))
                            PAIN_KEYWORDS)))
     \<and> (List.map_filter (painPoint (extractSentences rawText)
              (clusterSentences (extractSentences rawText) (7 / 20))) PAIN_KEYWORDS = []
          \<longrightarrow> mapE inferredPainPoint
                (take 3 (clusterSentences
                           (filter (\<lambda>s. inferSentiment s = negative) (extractSentences rawText))
                           (1 / 4)))
              = Inr (pain_points r))"
proof -
  let ?S = "extractSentences rawText"
  let ?C = "clusterSentences ?S (7 / 20)"
  from analyzeUserFeedback_stages [of rawText table]
  obtain pains r table' where
    p: "painPoints ?S ?C = Inr pains"
    and r: "analyzeUserFeedback table rawText = Inr (r, table')" "pain_points r = pains"
    by blast
  from painPoints_cases [OF p] r(2)
  have "(List.map_filter (painPoint ?S ?C) PAIN_KEYWORDS \<noteq> []
          \<longrightarrow> sorted_wrt (\<lambda>a b. sevOrder (severity b) \<le> sevOrder (severity a)) (pain_points r)
              \<and> (\<forall>t. filter (\<lambda>p. severity p = t) (pain_points r)
                     = filter (\<lambda>p. severity p = t)
                         (List.map_filter (painPoint ?S ?C) PAIN_KEYWORDS)))
     \<and> (List.map_filter (painPoint ?S ?C) PAIN_KEYWORDS = []
          \<longrightarrow> mapE inferredPainPoint
                (take 3 (clusterSentences (filter (\<lambda>s. inferSentiment s = negative) ?S) (1 / 4)))
              = Inr (pain_points r))"
    using explicitPainPoints_sorted [of ?S ?C] explicitPainPoints_stable [of _ ?S ?C]
    by simp
  with r(1) show ?thesis by (intro exI conjI) auto
qed

lemma slow_sentences: "extractSentences ''The app is slow'' = [''The app is slow'']"
  by code_simp

lemma slow_lower: "toLowerCase ''The app is slow'' = ''the app is slow''"
  by code_simp

lemma slow_clusters: "clusterSentences [''The app is slow''] threshold = [[''The app is slow'']]"
  by (simp add: clusterSentences_def seed_def)

lemma showInt_one: "showInt 1 = ''1''"
  by code_simp

lemma slow_explicit:
  "map (\<lambda>p. (issue p, frequency p, severity p))
     (List.map_filter (painPoint [''The app is slow''] [[''The app is slow'']]) PAIN_KEYWORDS)
   = [(''Performance & Speed Issues'', ''1 mention'', low), (''Mobile Experience'', ''1 mention'', low)]"
  by (simp add: painPoint_def PAIN_KEYWORDS_def Let_def slow_lower List.map_filter_simps
      showInt_one)

lemma pain_points_sorted_when_explicit_example:
  "(\<exists>r table'. analyzeUserFeedback IMPLICIT_THEME_PATTERNS ''The app is slow'' = Inr (r, table')
      \<and> List.map_filter (painPoint (extractSentences ''The app is slow'')
            (clusterSentences (extractSentences ''The app is slow'') (7 / 20))) PAIN_KEYWORDS \<noteq> []
      \<and> sorted_wrt (\<lambda>a b. sevOrder (severity b) \<le> sevOrder (severity a)) (pain_points r))
   \<and> (\<exists>r table'. analyzeUserFeedback IMPLICIT_THEME_PATTERNS ''always!'' = Inr (r, table')
      \<and> List.map_filter (painPoint (extractSentences ''always!'')
            (clusterSentences (extractSentences ''always!'') (7 / 20))) PAIN_KEYWORDS = []
      \<and> mapE inferredPainPoint
            (take 3 (clusterSentences
                       (filter (\<lambda>s. inferSentiment s = negative) (extractSentences ''always!''))
                       (1 / 4)))
          = Inr (pain_points r))"
proof -
  have a: "List.map_filter (painPoint (extractSentences ''The app is slow'')
      (clusterSentences (extractSentences ''The app is slow'') (7 / 20))) PAIN_KEYWORDS \<noteq> []"
    using slow_explicit by (auto simp: slow_sentences slow_clusters)
  have b: "List.map_filter (painPoint (extractSentences ''always!'')
      (clusterSentences (extractSentences ''always!'') (7 / 20))) PAIN_KEYWORDS = []"
    by (simp add: always_sentences painPoint_def PAIN_KEYWORDS_def Let_def List.map_filter_simps)
  show ?thesis
    using pain_points_sorted_when_explicit [of IMPLICIT_THEME_PATTERNS "''The app is slow''"]
      pain_points_sorted_when_explicit [of IMPLICIT_THEME_PATTERNS "''always!''"] a b
    by (metis (no_types, lifting))
qed

lemma colors_sentences:
  "extractSentences ''Colors seem bad. Menus are poor. Menus remain poor.''
     = [''Colors seem bad'', ''Menus are poor'', ''Menus remain poor'']"
  by code_simp

lemma colors_lower:
  "toLowerCase ''Colors seem bad'' = ''colors seem bad''"
  "toLowerCase ''Menus are poor'' = ''menus are poor''"
  "toLowerCase ''Menus remain poor'' = ''menus remain poor''"
  by code_simp+

lemma colors_explicit:
  "explicitPainPoints [''Colors seem bad'', ''Menus are poor'', ''Menus remain poor''] clusters = []"
  by (simp add: explicitPainPoints_def painPoint_def PAIN_KEYWORDS_def Let_def colors_lower)

lemma colors_negative:
  "inferSentiment ''Colors seem bad'' = negative"
  "inferSentiment ''Menus are poor'' = negative"
  "inferSentiment ''Menus remain poor'' = negative"
  by (simp_all add: inferSentiment_def negativeSignals_def positiveSignals_def Let_def colors_lower)

lemma colors_clusters:
  "clusterSentences [''Colors seem bad'', ''Menus are poor'', ''Menus remain poor''] (1 / 4)
     = [[''Colors seem bad''], [''Menus are poor'', ''Menus remain poor'']]"
  by code_simp

lemma colors_painPoints:
  "map_sum id (map severity)
     (painPoints [''Colors seem bad'', ''Menus are poor'', ''Menus remain poor''] clusters)
   = Inr [low, medium]"
  by (simp add: painPoints_def Let_def colors_explicit colors_negative colors_clusters
      inferredPainPoint_def)

text \<open>
  Claim C7 says that the final list of pain points is sorted by falling severity, the
  findings of the fallback included. The sort runs on the explicit findings, and the
  fallback pushes its findings after it has run. The code at the failing input: three
  negative sentences without pain keyword, the first alone in its cluster and the other two
  together, give a \<open>low\<close> finding before a \<open>medium\<close> one.
\<close>

theorem fallback_pain_points_unsorted:
  "\<exists>r table'. analyzeUserFeedback IMPLICIT_THEME_PATTERNS
         ''Colors seem bad. Menus are poor. Menus remain poor.'' = Inr (r, table')
     \<and> map severity (pain_points r) = [low, medium]"
proof -
  from analyzeUserFeedback_stages
    [of "''Colors seem bad. Menus are poor. Menus remain poor.''" IMPLICIT_THEME_PATTERNS]
  obtain pains r table' where
    p: "painPoints (extractSentences ''Colors seem bad. Menus are poor. Menus remain poor.'')
          (clusterSentences
             (extractSentences ''Colors seem bad. Menus are poor. Menus remain poor.'') (7 / 20))
        = Inr pains"
    and r: "analyzeUserFeedback IMPLICIT_THEME_PATTERNS
          ''Colors seem bad. Menus are poor. Menus remain poor.'' = Inr (r, table')"
      "pain_points r = pains"
    by blast
  from p have "painPoints [''Colors seem bad'', ''Menus are poor'', ''Menus remain poor'']
      (clusterSentences [''Colors seem bad'', ''Menus are poor'', ''Menus remain poor''] (7 / 20))
      = Inr pains"
    by (simp only: colors_sentences)
  with colors_painPoints [of "clusterSentences
      [''Colors seem bad'', ''Menus are poor'', ''Menus remain poor''] (7 / 20)"]
  have "map severity pains = [low, medium]" by simp
  with r have "analyzeUserFeedback IMPLICIT_THEME_PATTERNS
         ''Colors seem bad. Menus are poor. Menus remain poor.'' = Inr (r, table')
     \<and> map severity (pain_points r) = [low, medium]" by simp
  then show ?thesis by (intro exI)
qed

section \<open>Pain points: mention count and tier\<close>

lemma touched_covers:
  "length (filter P (concat clusters))
     \<le> sum_list (map length (filter (\<lambda>c. \<exists>s\<in>set c. P s) clusters))"
proof (induction clusters)
  case Nil
  then show ?case by simp
next
  case (Cons c cs)
  show ?case
  proof (cases "\<exists>s\<in>set c. P s")
    case True
    have "length (filter P (concat (c # cs)))
        = length (filter P c) + length (filter P (concat cs))" by simp
    moreover have "sum_list (map length (filter (\<lambda>c. \<exists>s\<in>set c. P s) (c # cs)))
        = length c + sum_list (map length (filter (\<lambda>c. \<exists>s\<in>set c. P s) cs))"
      using True by simp
    ultimately show ?thesis using Cons.IH length_filter_le [of P c] by linarith
  next
    case False
    then have "filter P c = []" by (simp add: filter_empty_conv)
    with False Cons show ?thesis by simp
  qed
qed

lemma matched_covered:
  assumes "mset (concat clusters) = mset sentences"
  shows "length (matchedSentences keywords sentences)
     \<le> touchedSize (matchedSentences keywords sentences) clusters"
proof -
  let ?M = "matchedSentences keywords sentences"
  let ?P = "\<lambda>s. s \<in> set ?M"
  have "filter ?P sentences = ?M"
    unfolding matchedSentences_def by (rule filter_cong) auto
  then have "length ?M = size (filter_mset ?P (mset sentences))"
    by (metis mset_filter size_mset)
  also have "\<dots> = size (filter_mset ?P (mset (concat clusters)))" by (simp add: assms)
  also have "\<dots> = length (filter ?P (concat clusters))" by (metis mset_filter size_mset)
  also have "\<dots> \<le> touchedSize ?M clusters"
    unfolding touchedSize_def by (rule touched_covers)
  finally show ?thesis .
qed

lemma painPoint_mentions:
  assumes "mset (concat clusters) = mset sentences"
  shows "painPoint sentences clusters (keywords, p_issue) =
     (if mentionCount keywords sentences clusters = 0 then None
      else Some \<lparr>issue = p_issue,
             frequency = showNat (mentionCount keywords sentences clusters) @ '' mention''
                         @ (if 1 < mentionCount keywords sentences clusters then ''s'' else []),
             severity = tierOf (mentionCount keywords sentences clusters),
             quotes = take 3 (matchedSentences keywords sentences)\<rparr>)"
proof -
  let ?M = "matchedSentences keywords sentences"
  let ?T = "touchedSize ?M clusters"
  let ?n = "mentionCount keywords sentences clusters"
  have M: "filter (\<lambda>s. list_ex (\<lambda>k. includesStr (toLowerCase s) k) keywords) sentences = ?M"
    by (simp add: matchedSentences_def list_ex_iff)
  have T: "sum_list (map length (filter (\<lambda>c. list_ex (\<lambda>s. s \<in> set ?M) c) clusters)) = ?T"
    by (simp add: touchedSize_def list_ex_iff)
  have le: "length ?M \<le> ?T" using assms by (rule matched_covered)
  have zero: "?T = 0" if "length ?M = 0"
    using that by (simp add: touchedSize_def)
  have boost: "(if length ?M > 0 then int ?T - int (length ?M) else 0) = int (?T - length ?M)"
    using le zero by (cases "length ?M = 0") (simp_all add: of_nat_diff)
  have total: "int (length ?M) + (if length ?M > 0 then int ?T - int (length ?M) else 0) div 2
      = int ?n"
    unfolding boost mentionCount_def by (simp add: zdiv_int)
  have sh: "showInt (int ?n) = showNat ?n" by (simp add: showInt_def)
  have tier: "?n \<noteq> 0 \<Longrightarrow>
      (if int ?n \<ge> 3 then high else if int ?n \<ge> 2 then medium else low) = tierOf ?n"
    by (auto simp: tierOf_def)
  show ?thesis
    unfolding painPoint_def prod.case Let_def M T total
    using sh tier by (cases "?n = 0") simp_all
qed


text \<open>
  Claim C6. For every entry of the pain keyword table, the clusters that hold a matched
  sentence are at least as large together as the number of matched sentences, so the cluster
  boost is never negative; the entry gives no finding when its mention count is 0, and
  otherwise the finding with that count in its frequency, the tier \<open>low\<close> for 1 mention,
  \<open>medium\<close> for 2 and \<open>high\<close> for 3 or more, and the first three matched sentences as
  quotes. When some entry gives a finding, the pain points of the report are exactly these
  findings.
\<close>

theorem pain_point_mention_count:
  "\<exists>r table'. analyzeUserFeedback table rawText = Inr (r, table')
     \<and> (let sentences = extractSentences rawText;
             clusters = clusterSentences sentences (7 / 20)
         in (\<forall>(keywords, p_issue) \<in> set PAIN_KEYWORDS.
               length (matchedSentences keywords sentences)
                 \<le> touchedSize (matchedSentences keywords sentences) clusters
               \<and> painPoint sentences clusters (keywords, p_issue) =
                   (if mentionCount keywords sentences clusters = 0 then None
                    else Some \<lparr>issue = p_issue,
                           frequency =
                             showNat (mentionCount keywords sentences clusters) @ '' mention''
                             @ (if 1 < mentionCount keywords sentences clusters then ''s'' else []),
                           severity = tierOf (mentionCount keywords sentences clusters),
                           quotes = take 3 (matchedSentences keywords sentences)\<rparr>))
            \<and> (List.map_filter (painPoint sentences clusters) PAIN_KEYWORDS \<noteq> []
                 \<longrightarrow> mset (pain_points r)
                     = mset (List.map_filter (painPoint sentences clusters) PAIN_KEYWORDS)))"
proof -
  let ?S = "extractSentences rawText"
  let ?C = "clusterSentences ?S (7 / 20)"
  have part: "mset (concat ?C) = mset ?S" by (rule clusterSentences_mset)
  from analyzeUserFeedback_stages [of rawText table]
  obtain pains r table' where
    p: "painPoints ?S ?C = Inr pains"
    and r: "analyzeUserFeedback table rawText = Inr (r, table')" "pain_points r = pains"
    by blast
  have a: "\<forall>(keywords, p_issue) \<in> set PAIN_KEYWORDS.
      length (matchedSentences keywords ?S) \<le> touchedSize (matchedSentences keywords ?S) ?C
      \<and> painPoint ?S ?C (keywords, p_issue) =
          (if mentionCount keywords ?S ?C = 0 then None
           else Some \<lparr>issue = p_issue,
                  frequency = showNat (mentionCount keywords ?S ?C) @ '' mention''
                              @ (if 1 < mentionCount keywords ?S ?C then ''s'' else []),
                  severity = tierOf (mentionCount keywords ?S ?C),
                  quotes = take 3 (matchedSentences keywords ?S)\<rparr>)"
    using matched_covered [OF part] painPoint_mentions [OF part] by simp
  have b: "List.map_filter (painPoint ?S ?C) PAIN_KEYWORDS \<noteq> []
      \<longrightarrow> mset (pain_points r) = mset (List.map_filter (painPoint ?S ?C) PAIN_KEYWORDS)"
    using painPoints_cases [OF p] r(2) by (simp add: explicitPainPoints_def)
  from r(1) a b show ?thesis unfolding Let_def by (intro exI conjI)
qed

lemma reports_sentences:
  "extractSentences
     ''The reports page is slow. The reports page is awful. The reports page is clunky.''
   = [''The reports page is slow'', ''The reports page is awful'', ''The reports page is clunky'']"
  by code_simp

lemma reports_lower:
  "toLowerCase ''The reports page is slow'' = ''the reports page is slow''"
  "toLowerCase ''The reports page is awful'' = ''the reports page is awful''"
  "toLowerCase ''The reports page is clunky'' = ''the reports page is clunky''"
  by code_simp+

lemma reports_clusters:
  "clusterSentences
     [''The reports page is slow'', ''The reports page is awful'', ''The reports page is clunky'']
     (7 / 20)
   = [[''The reports page is slow'', ''The reports page is awful'', ''The reports page is clunky'']]"
  by code_simp

lemma showInt_two: "showInt 2 = ''2''"
  by code_simp

lemma reports_explicit:
  "List.map_filter
     (painPoint
        [''The reports page is slow'', ''The reports page is awful'', ''The reports page is clunky'']
        [[''The reports page is slow'', ''The reports page is awful'',
          ''The reports page is clunky'']])
     PAIN_KEYWORDS
   = [\<lparr>issue = ''Performance & Speed Issues'', frequency = ''2 mentions'', severity = medium,
       quotes = [''The reports page is slow'']\<rparr>]"
  by (simp add: painPoint_def PAIN_KEYWORDS_def Let_def reports_lower List.map_filter_simps
      showInt_two)

lemma reports_count:
  "mentionCount
     [''slow'', ''loading'', ''wait'', ''lag'', ''performance'', ''takes forever'', ''too long'',
      ''speed'']
     [''The reports page is slow'', ''The reports page is awful'', ''The reports page is clunky'']
     [[''The reports page is slow'', ''The reports page is awful'',
       ''The reports page is clunky'']]
   = 2"
  by (simp add: mentionCount_def matchedSentences_def touchedSize_def reports_lower)

theorem pain_point_mention_count_witness:
  "mentionCount
     [''slow'', ''loading'', ''wait'', ''lag'', ''performance'', ''takes forever'', ''too long'',
      ''speed'']
     (extractSentences
        ''The reports page is slow. The reports page is awful. The reports page is clunky.'')
     (clusterSentences
        (extractSentences
           ''The reports page is slow. The reports page is awful. The reports page is clunky.'')
        (7 / 20))
   = 2
   \<and> (\<exists>r table'. analyzeUserFeedback IMPLICIT_THEME_PATTERNS
           ''The reports page is slow. The reports page is awful. The reports page is clunky.''
         = Inr (r, table')
       \<and> pain_points r
           = [\<lparr>issue = ''Performance & Speed Issues'', frequency = ''2 mentions'',
                severity = medium, quotes = [''The reports page is slow'']\<rparr>])"
proof -
  let ?raw = "''The reports page is slow. The reports page is awful. The reports page is clunky.''"
  let ?f = "\<lparr>issue = ''Performance & Speed Issues'', frequency = ''2 mentions'',
      severity = medium, quotes = [''The reports page is slow'']\<rparr>"
  have e: "List.map_filter (painPoint (extractSentences ?raw)
      (clusterSentences (extractSentences ?raw) (7 / 20))) PAIN_KEYWORDS = [?f]"
    by (simp only: reports_sentences reports_clusters reports_explicit)
  have c: "mentionCount
     [''slow'', ''loading'', ''wait'', ''lag'', ''performance'', ''takes forever'', ''too long'',
      ''speed'']
     (extractSentences ?raw) (clusterSentences (extractSentences ?raw) (7 / 20)) = 2"
    by (simp only: reports_sentences reports_clusters reports_count)
  from pain_point_mention_count [of IMPLICIT_THEME_PATTERNS ?raw]
  obtain r table' where
    r: "analyzeUserFeedback IMPLICIT_THEME_PATTERNS ?raw = Inr (r, table')"
    and m: "List.map_filter (painPoint (extractSentences ?raw)
        (clusterSentences (extractSentences ?raw) (7 / 20))) PAIN_KEYWORDS \<noteq> []
      \<longrightarrow> mset (pain_points r)
          = mset (List.map_filter (painPoint (extractSentences ?raw)
              (clusterSentences (extractSentences ?raw) (7 / 20))) PAIN_KEYWORDS)"
    unfolding Let_def by blast
  from m e have "mset (pain_points r) = mset [?f]" by simp
  then have "pain_points r = [?f]" by simp
  with r c show ?thesis by (intro conjI exI)
qed

end
